theory Spec2Isabelle
  imports Main "HOL-Library.Word"
begin

unbundle bit_operations_syntax

section \<open>Platform types and constants\<close>

text \<open>
  The monitor is a Win32 program. The integer types it uses are fixed-width:
  \<open>DWORD\<close> and \<open>UINT\<close> are 32 bits, \<open>WPARAM\<close> and \<open>LRESULT\<close> are pointer-sized
  (64 bits), a \<open>wchar_t\<close> is 16 bits.
\<close>

type_synonym DWORD = "32 word"
type_synonym UINT = "32 word"
type_synonym WPARAM = "64 word"
type_synonym LRESULT = "64 word"
type_synonym wchar_t = "16 word"

text \<open>Message identifiers and device-broadcast codes of \<open>windows.h\<close> and \<open>dbt.h\<close>.\<close>

definition WM_DESTROY :: UINT where "WM_DESTROY = 0x0002"
definition WM_QUIT :: UINT where "WM_QUIT = 0x0012"
definition WM_DEVICECHANGE :: UINT where "WM_DEVICECHANGE = 0x0219"
definition WM_CLIPBOARDUPDATE :: UINT where "WM_CLIPBOARDUPDATE = 0x031D"

definition DBT_DEVICEARRIVAL :: WPARAM where "DBT_DEVICEARRIVAL = 0x8000"
definition DBT_DEVICEREMOVECOMPLETE :: WPARAM where "DBT_DEVICEREMOVECOMPLETE = 0x8004"

definition DBT_DEVTYP_VOLUME :: DWORD where "DBT_DEVTYP_VOLUME = 2"
definition DBT_DEVTYP_DEVICEINTERFACE :: DWORD where "DBT_DEVTYP_DEVICEINTERFACE = 5"

definition TRUE :: LRESULT where "TRUE = 1"

subsection \<open>GUIDs\<close>

record GUID =
  Data1 :: "32 word"
  Data2 :: "16 word"
  Data3 :: "16 word"
  Data4 :: "8 word list"

text \<open>\<open>DEFINE_GUID(GUID_DEVINTERFACE_USB_DEVICE, 0xA5DCBF10L, 0x6530, 0x11D2, 0x90, ...)\<close>\<close>

definition GUID_DEVINTERFACE_USB_DEVICE :: GUID where
  "GUID_DEVINTERFACE_USB_DEVICE =
     \<lparr>Data1 = 0xA5DCBF10, Data2 = 0x6530, Data3 = 0x11D2,
      Data4 = [0x90, 0x1F, 0x00, 0xC0, 0x4F, 0xB9, 0x51, 0xED]\<rparr>"

text \<open>\<open>IsEqualGUID\<close> of the platform headers compares the two identifiers field by field.\<close>

definition IsEqualGUID :: "GUID \<Rightarrow> GUID \<Rightarrow> bool" where
  "IsEqualGUID a b \<longleftrightarrow>
     Data1 a = Data1 b \<and> Data2 a = Data2 b \<and> Data3 a = Data3 b \<and> Data4 a = Data4 b"

subsection \<open>Device-broadcast payloads and messages\<close>

text \<open>
  \<open>lParam\<close> of a \<open>WM_DEVICECHANGE\<close> message points to a \<open>DEV_BROADCAST_HDR\<close>, the
  common prefix of several structures. What follows the three header fields is
  \<open>DEV_BROADCAST_DEVICEINTERFACE\<close> (\<open>dbcc_classguid\<close>, then the null-terminated wide
  string \<open>dbcc_name\<close>, held here without its terminator),
  \<open>DEV_BROADCAST_VOLUME\<close> (\<open>dbcv_unitmask\<close>, \<open>dbcv_flags\<close>) or the body of another
  device type, which the program never reads.
\<close>

datatype broadcast_body =
    is_DeviceInterfaceBody: DeviceInterfaceBody (dbcc_classguid: GUID) (dbcc_name: "wchar_t list")
  | is_VolumeBody: VolumeBody (dbcv_unitmask: DWORD) (dbcv_flags: "16 word")
  | OtherBody "8 word list"

record DEV_BROADCAST_HDR =
  dbch_size :: DWORD
  dbch_devicetype :: DWORD
  dbch_reserved :: DWORD
  dbch_body :: broadcast_body

text \<open>A message as the window procedure receives it; a null \<open>lParam\<close> is \<open>None\<close>.\<close>

record MSG =
  uMsg :: UINT
  wParam :: WPARAM
  lParam :: "DEV_BROADCAST_HDR option"

text \<open>
  What \<open>GetMessage\<close> does before it returns: a sent message (\<open>WM_DEVICECHANGE\<close>,
  \<open>WM_DESTROY\<close>) is handed to the window procedure inside the call, a posted one
  (\<open>WM_CLIPBOARDUPDATE\<close>) is returned to the loop with a positive result,
  \<open>WM_QUIT\<close> is returned with result 0 and its exit code in \<open>wParam\<close>, and an error is
  the result -1.
\<close>

datatype delivery =
    Sent MSG
  | Posted MSG
  | QuitMsg WPARAM
  | GetMessageError

datatype api_result = Succeeded | Failed DWORD

text \<open>
  Everything the program asks of the operating system, as parameters: the clock, the disk,
  the text of an error code, the UTF-8 conversion, the default window procedure, the
  outcome of each start-up call and the messages delivered to the thread.
\<close>

record platform =
  local_time :: "nat \<Rightarrow> string + string"
  disk_accepts :: "nat \<Rightarrow> bool"
  FormatMessageA :: "DWORD \<Rightarrow> string"
  utf8_of :: "wchar_t list \<Rightarrow> string option"
  DefWindowProc :: "MSG \<Rightarrow> LRESULT"
  GetModuleFileNameW :: "DWORD + string"
  parent_path :: "string \<Rightarrow> string"
  path_append :: "string \<Rightarrow> string \<Rightarrow> string"
  current_path :: "string + string"
  log_open_succeeds :: bool
  RegisterClassW :: api_result
  CreateWindowExW :: api_result
  AddClipboardFormatListener :: api_result
  RegisterDeviceNotification :: api_result
  window_exists_at_exit :: bool
  deliveries :: "delivery list"

section \<open>Program state\<close>

text \<open>
  The globals \<open>g_logFile\<close> and \<open>g_logFilePath\<close>, the two console streams, and what the
  program has asked of the system so far. \<open>g_logFile\<close> holds the lines written in this
  run; \<open>is_open\<close> and \<open>failbit\<close> are the stream's state.
\<close>

record world =
  cout :: "string list"
  cerr :: "string list"
  g_logFile :: "string list"
  is_open :: bool
  failbit :: bool
  g_logFilePath :: string
  clock_reads :: nat
  disk_writes :: nat
  quit_posted :: "int list"
  default_handled :: "MSG list"

datatype fault = UndefinedBehaviour

section \<open>Logging\<close>

text \<open>
  \<open>GetTimestamp\<close>: the formatted local time, or the fixed text after an exception
  (\<open>Inl\<close> carries \<open>e.what()\<close>).
\<close>

definition GetTimestamp :: "platform \<Rightarrow> world \<Rightarrow> string \<times> world" where
  "GetTimestamp pf w =
     (case local_time pf (clock_reads w) of
        Inr s \<Rightarrow> (s, w\<lparr>clock_reads := Suc (clock_reads w)\<rparr>)
      | Inl what \<Rightarrow>
          (''[TIMESTAMP_ERROR] '',
           w\<lparr>clock_reads := Suc (clock_reads w),
             cerr := cerr w @ [''Error getting timestamp: '' @ what]\<rparr>))"

text \<open>
  \<open>g_logFile << timedMessage << std::endl; g_logFile.flush();\<close> A stream whose failbit is
  set ignores the write; otherwise the disk decides, and a refused write sets the failbit.
\<close>

definition write_log :: "platform \<Rightarrow> string \<Rightarrow> world \<Rightarrow> world" where
  "write_log pf line w =
     (if failbit w then w
      else if disk_accepts pf (disk_writes w)
      then w\<lparr>g_logFile := g_logFile w @ [line], disk_writes := Suc (disk_writes w)\<rparr>
      else w\<lparr>failbit := True, disk_writes := Suc (disk_writes w)\<rparr>)"

definition LogEvent :: "platform \<Rightarrow> string \<Rightarrow> world \<Rightarrow> world" where
  "LogEvent pf message w =
     (let (stamp, w1) = GetTimestamp pf w;
          timedMessage = stamp @ message;
          w2 = w1\<lparr>cout := cout w1 @ [timedMessage]\<rparr>
      in if is_open w2 then
           (let w3 = write_log pf timedMessage w2
            in if failbit w3 then
                 (let (stamp2, w4) = GetTimestamp pf w3
                  in w4\<lparr>cerr := cerr w4 @
                       [stamp2 @ ''FATAL: Failed to write to log file '' @ [CHR 0x27]
                          @ g_logFilePath w4 @ [CHR 0x27] @ ''!'']\<rparr>)
               else w3)
         else
           (let (stamp2, w4) = GetTimestamp pf w2
            in w4\<lparr>cerr := cerr w4 @
                 [stamp2 @ ''ERROR: Log file is not open. Cannot log: '' @ message]\<rparr>))"

text \<open>\<open>std::to_string\<close> of an unsigned value: its decimal digits.\<close>

fun to_string :: "nat \<Rightarrow> string" where
  "to_string n =
     (if n < 10 then [char_of (48 + n)]
      else to_string (n div 10) @ [char_of (48 + n mod 10)])"

declare to_string.simps [simp del]

definition LogError :: "platform \<Rightarrow> string \<Rightarrow> DWORD \<Rightarrow> world \<Rightarrow> world" where
  "LogError pf context errorCode w =
     (let errorMessage = FormatMessageA pf errorCode;
          logMsg = ''ERROR in '' @ context @ '': '' @ errorMessage @ '' (Code: ''
                   @ to_string (unat errorCode) @ '')''
      in LogEvent pf logMsg w)"

section \<open>The window procedure\<close>

text \<open>
  The drive-letter loop of the volume branch:
  \<open>for (char i = 0; i < 26; ++i) if (driveMask & (1 << i)) { driveLetter = 'A' + i; break; }\<close>
  with \<open>driveLetter\<close> starting as \<open>'?'\<close>.
\<close>

function drive_letter_from :: "DWORD \<Rightarrow> nat \<Rightarrow> char" where
  "drive_letter_from driveMask i =
     (if i < 26 then
        (if driveMask AND push_bit i 1 \<noteq> 0 then char_of (of_char (CHR ''A'') + i)
         else drive_letter_from driveMask (Suc i))
      else CHR ''?'')"
  by pat_completeness auto
termination
  by (relation "measure (\<lambda>(driveMask, i). 26 - i)") auto

declare drive_letter_from.simps [simp del]

definition drive_letter :: "DWORD \<Rightarrow> char" where
  "drive_letter driveMask = drive_letter_from driveMask 0"

text \<open>
  \<open>WideCharToMultiByte(CP_UTF8, 0, src, n, dst, cb, NULL, NULL)\<close>: with no source
  characters the call fails and returns 0; with \<open>cb = 0\<close> it returns the size the
  conversion needs and writes nothing; otherwise it writes the conversion into the buffer
  and returns its size, or fails if the buffer is too small. The buffer is given with its
  capacity as its length.
\<close>

definition WideCharToMultiByte :: "platform \<Rightarrow> wchar_t list \<Rightarrow> string \<Rightarrow> nat \<times> string" where
  "WideCharToMultiByte pf src dst =
     (if src = [] then (0, dst)
      else case utf8_of pf src of
             None \<Rightarrow> (0, dst)
           | Some s \<Rightarrow>
               if length dst = 0 then (length s, dst)
               else if length s \<le> length dst then (length s, s @ drop (length s) dst)
               else (0, dst))"

text \<open>
  The conversion of the device path, written twice in the source (once per branch):
  the size query, the buffer of that many zero bytes, the conversion into it.
\<close>

definition devPathA :: "platform \<Rightarrow> wchar_t list \<Rightarrow> string" where
  "devPathA pf devPathW =
     (let size_needed = fst (WideCharToMultiByte pf devPathW []);
          buf = replicate size_needed (CHR 0x00)
      in snd (WideCharToMultiByte pf devPathW buf))"

definition PostQuitMessage :: "int \<Rightarrow> world \<Rightarrow> world" where
  "PostQuitMessage code w = w\<lparr>quit_posted := quit_posted w @ [code]\<rparr>"

text \<open>
  \<open>WindowProc\<close>. The casts of \<open>pHdr\<close> to the device-interface and volume structures are
  unchecked: reading a field of a structure that is not there is undefined behaviour.
  The removal branch of a volume casts but reads nothing.
\<close>

definition WindowProc :: "platform \<Rightarrow> MSG \<Rightarrow> world \<Rightarrow> fault + (LRESULT \<times> world)" where
  "WindowProc pf m w =
     (if uMsg m = WM_DESTROY then
        Inr (0, PostQuitMessage 0 (LogEvent pf ''Window destroyed, stopping message loop.'' w))
      else if uMsg m = WM_CLIPBOARDUPDATE then
        Inr (0, LogEvent pf ''Clipboard content changed (Copy/Paste detected).'' w)
      else if uMsg m = WM_DEVICECHANGE then
        (if wParam m = DBT_DEVICEARRIVAL \<or> wParam m = DBT_DEVICEREMOVECOMPLETE then
           (case lParam m of
              None \<Rightarrow> Inr (TRUE, w)
            | Some pHdr \<Rightarrow>
                if dbch_devicetype pHdr = DBT_DEVTYP_DEVICEINTERFACE then
                  (case dbch_body pHdr of
                     DeviceInterfaceBody classguid name \<Rightarrow>
                       if IsEqualGUID classguid GUID_DEVINTERFACE_USB_DEVICE then
                         (if wParam m = DBT_DEVICEARRIVAL then
                            Inr (TRUE, LogEvent pf
                              (''USB Device Plugged In: '' @ devPathA pf name) w)
                          else
                            Inr (TRUE, LogEvent pf
                              (''USB Device Removed: '' @ devPathA pf name) w))
                       else
                         (if wParam m = DBT_DEVICEARRIVAL then
                            Inr (TRUE, LogEvent pf
                              (''Non-USB Device Interface Arrival (Potential Driver/Software Install?): ''
                                 @ devPathA pf name) w)
                          else
                            Inr (TRUE, LogEvent pf
                              (''Non-USB Device Interface Removal: '' @ devPathA pf name) w))
                   | _ \<Rightarrow> Inl UndefinedBehaviour)
                else if dbch_devicetype pHdr = DBT_DEVTYP_VOLUME then
                  (if wParam m = DBT_DEVICEARRIVAL then
                     (case dbch_body pHdr of
                        VolumeBody unitmask flags \<Rightarrow>
                          Inr (TRUE, LogEvent pf
                            (''Volume/Drive Mounted: '' @ [drive_letter unitmask]
                               @ [CHR '':'', CHR 0x5C]) w)
                      | _ \<Rightarrow> Inl UndefinedBehaviour)
                   else if wParam m = DBT_DEVICEREMOVECOMPLETE then
                     Inr (TRUE, LogEvent pf ''Volume/Drive Removed.'' w)
                   else Inr (TRUE, w))
                else Inr (TRUE, w))
         else Inr (TRUE, w))
      else
        Inr (DefWindowProc pf m, w\<lparr>default_handled := default_handled w @ [m]\<rparr>))"

section \<open>Start-up, the message loop and shutdown\<close>

definition g_logFileName :: string where
  "g_logFileName = ''SecurityMonitorLog.txt''"

text \<open>
  \<open>GetExecutableDirectory\<close>. When \<open>GetModuleFileNameW\<close> fails the function falls back to
  \<open>std::filesystem::current_path()\<close>, which may throw (\<open>Inl\<close> carries \<open>e.what()\<close>).
\<close>

definition GetExecutableDirectory :: "platform \<Rightarrow> world \<Rightarrow> (string + string) \<times> world" where
  "GetExecutableDirectory pf w =
     (case GetModuleFileNameW pf of
        Inl error \<Rightarrow>
          (let w1 = w\<lparr>cerr := cerr w @
                      [''FATAL: Failed to get executable path. Error code: ''
                         @ to_string (unat error)]\<rparr>;
               w2 = LogError pf ''GetExecutableDirectory/GetModuleFileNameW'' error w1
           in (current_path pf, w2))
      | Inr path \<Rightarrow> (Inr (parent_path pf path), w))"

definition RegisterDeviceNotifications :: "platform \<Rightarrow> world \<Rightarrow> bool \<times> world" where
  "RegisterDeviceNotifications pf w =
     (case RegisterDeviceNotification pf of
        Failed err \<Rightarrow> (False, LogError pf ''RegisterDeviceNotification'' err w)
      | Succeeded \<Rightarrow>
          (True, LogEvent pf ''Successfully registered for device notifications.'' w))"

definition initial_world :: world where
  "initial_world =
     \<lparr>cout = [], cerr = [], g_logFile = [], is_open = False, failbit = False,
      g_logFilePath = [], clock_reads = 0, disk_writes = 0, quit_posted = [],
      default_handled = []\<rparr>"

text \<open>
  Steps 1 to 5 of \<open>main\<close> and the line that announces the loop: \<open>Inl\<close> is an early
  \<open>return\<close> with its exit code, \<open>Inr\<close> the state in which the message loop starts.
\<close>

definition startup :: "platform \<Rightarrow> (int \<times> world) + world" where
  "startup pf =
     (case GetExecutableDirectory pf initial_world of
        (Inl what, w1) \<Rightarrow>
          Inl (1, w1\<lparr>cerr := cerr w1 @
                 [''FATAL: Could not determine executable directory: '' @ what]\<rparr>)
      | (Inr projectDir, w1) \<Rightarrow>
          (let w2 = w1\<lparr>g_logFilePath := path_append pf projectDir g_logFileName\<rparr>;
               w3 = w2\<lparr>cout := cout w2 @
                      [''Project Directory (Executable Location): '' @ projectDir,
                       ''Log file path: '' @ g_logFilePath w2]\<rparr>;
               w4 = w3\<lparr>is_open := log_open_succeeds pf\<rparr>
           in if \<not> is_open w4 then
                (let (stamp, w5) = GetTimestamp pf w4
                 in Inl (1, w5\<lparr>cerr := cerr w5 @
                      [stamp @ ''FATAL: Could not open log file: '' @ g_logFilePath w5]\<rparr>))
              else
                (let w5 = LogEvent pf ''--- SecurityMonitor Started ---'' w4;
                     w6 = LogEvent pf (''Project Directory: '' @ projectDir) w5
                 in case RegisterClassW pf of
                      Failed err \<Rightarrow>
                        Inl (1, (LogError pf ''RegisterClassW'' err w6)\<lparr>is_open := False\<rparr>)
                    | Succeeded \<Rightarrow>
                        (case CreateWindowExW pf of
                           Failed err \<Rightarrow>
                             Inl (1, (LogError pf ''CreateWindowExW (Message Window)'' err w6)
                                        \<lparr>is_open := False\<rparr>)
                         | Succeeded \<Rightarrow>
                             (let w7 = LogEvent pf ''Message-only window created successfully.'' w6;
                                  w8 = (case AddClipboardFormatListener pf of
                                          Failed err \<Rightarrow>
                                            LogEvent pf
                                              ''WARNING: Failed to register clipboard listener. Copy/Paste events will not be logged.''
                                              (LogError pf ''AddClipboardFormatListener'' err w7)
                                        | Succeeded \<Rightarrow>
                                            LogEvent pf ''Successfully registered clipboard listener.'' w7);
                                  (registered, w9) = RegisterDeviceNotifications pf w8;
                                  w10 = (if \<not> registered then
                                           LogEvent pf
                                             ''WARNING: Failed to register device notifications. USB/Device events may not be logged accurately.''
                                             w9
                                         else w9)
                              in Inr (LogEvent pf ''Starting message loop. Monitoring active...'' w10))))))"

text \<open>
  \<open>while (GetMessage(&msg, NULL, 0, 0) > 0) { TranslateMessage(&msg); DispatchMessage(&msg); }\<close>
  over what the system delivers. When nothing more is delivered \<open>GetMessage\<close> blocks for
  ever: the loop does not return (\<open>None\<close>).
\<close>

fun message_loop ::
  "platform \<Rightarrow> delivery list \<Rightarrow> MSG \<Rightarrow> world \<Rightarrow> (fault + (MSG \<times> world)) option" where
  "message_loop pf [] msg w = None"
| "message_loop pf (Sent m # ds) msg w =
     (case WindowProc pf m w of
        Inl f \<Rightarrow> Some (Inl f)
      | Inr (r, w') \<Rightarrow> message_loop pf ds msg w')"
| "message_loop pf (Posted m # ds) msg w =
     (case WindowProc pf m w of
        Inl f \<Rightarrow> Some (Inl f)
      | Inr (r, w') \<Rightarrow> message_loop pf ds m w')"
| "message_loop pf (QuitMsg code # ds) msg w =
     Some (Inr (\<lparr>uMsg = WM_QUIT, wParam = code, lParam = None\<rparr>, w))"
| "message_loop pf (GetMessageError # ds) msg w = Some (Inr (msg, w))"

text \<open>
  The cleanup after the loop. \<open>DestroyWindow\<close> sends \<open>WM_DESTROY\<close> to the window
  procedure if the window still exists. The exit code is \<open>(int)msg.wParam\<close>.
\<close>

definition cleanup :: "platform \<Rightarrow> MSG \<Rightarrow> world \<Rightarrow> fault + (int \<times> world)" where
  "cleanup pf msg w =
     (let w1 = LogEvent pf ''--- SecurityMonitor Stopping ---'' w;
          destroyed =
            (if window_exists_at_exit pf then
               WindowProc pf \<lparr>uMsg = WM_DESTROY, wParam = 0, lParam = None\<rparr> w1
             else Inr (0, w1))
      in case destroyed of
           Inl f \<Rightarrow> Inl f
         | Inr (r, w2) \<Rightarrow> Inr (sint (ucast (wParam msg) :: 32 word), w2\<lparr>is_open := False\<rparr>))"

definition main :: "platform \<Rightarrow> (fault + (int \<times> world)) option" where
  "main pf =
     (case startup pf of
        Inl (code, w) \<Rightarrow> Some (Inr (code, w))
      | Inr w \<Rightarrow>
          (case message_loop pf (deliveries pf) \<lparr>uMsg = 0, wParam = 0, lParam = None\<rparr> w of
             None \<Rightarrow> None
           | Some (Inl f) \<Rightarrow> Some (Inl f)
           | Some (Inr (msg, w')) \<Rightarrow> Some (cleanup pf msg w')))"

section \<open>Notions used to state the properties\<close>

text \<open>The timestamp that the \<open>k\<close>-th reading of the clock puts in front of a message.\<close>

definition stamp_at :: "platform \<Rightarrow> nat \<Rightarrow> string" where
  "stamp_at pf k = (case local_time pf k of Inr s \<Rightarrow> s | Inl what \<Rightarrow> ''[TIMESTAMP_ERROR] '')"

text \<open>A line is a message text behind one of the platform's timestamps.\<close>

definition timed :: "platform \<Rightarrow> string \<Rightarrow> string \<Rightarrow> bool" where
  "timed pf text line \<longleftrightarrow> (\<exists>k. line = stamp_at pf k @ text)"

text \<open>
  A payload is as the system builds it when the structure behind the header is the one
  that the header's device type announces.
\<close>

definition well_formed :: "MSG \<Rightarrow> bool" where
  "well_formed m \<longleftrightarrow>
     (case lParam m of
        None \<Rightarrow> True
      | Some pHdr \<Rightarrow>
          (dbch_devicetype pHdr = DBT_DEVTYP_DEVICEINTERFACE \<longrightarrow>
             is_DeviceInterfaceBody (dbch_body pHdr)) \<and>
          (dbch_devicetype pHdr = DBT_DEVTYP_VOLUME \<longrightarrow> is_VolumeBody (dbch_body pHdr)))"

text \<open>The messages that reach the window procedure before \<open>GetMessage\<close> ends the loop.\<close>

fun dispatched :: "delivery list \<Rightarrow> MSG list" where
  "dispatched [] = []"
| "dispatched (Sent m # ds) = m # dispatched ds"
| "dispatched (Posted m # ds) = m # dispatched ds"
| "dispatched (QuitMsg code # ds) = []"
| "dispatched (GetMessageError # ds) = []"

text \<open>
  The device path as it stands in a logged line: the UTF-8 conversion of the wide path,
  empty when the path has no characters or the conversion fails.
\<close>

definition decoded_path :: "platform \<Rightarrow> wchar_t list \<Rightarrow> string" where
  "decoded_path pf name =
     (if name = [] then []
      else case utf8_of pf name of None \<Rightarrow> [] | Some s \<Rightarrow> s)"

text \<open>
  The event that a message stands for, as a function of the message alone: the text that
  is logged for it, or \<open>None\<close> when nothing is logged.
\<close>

definition device_event_text :: "platform \<Rightarrow> WPARAM \<Rightarrow> DEV_BROADCAST_HDR \<Rightarrow> string option" where
  "device_event_text pf action pHdr =
     (if dbch_devicetype pHdr = DBT_DEVTYP_DEVICEINTERFACE then
        (case dbch_body pHdr of
           DeviceInterfaceBody classguid name \<Rightarrow>
             Some ((if classguid = GUID_DEVINTERFACE_USB_DEVICE then
                      (if action = DBT_DEVICEARRIVAL then ''USB Device Plugged In: ''
                       else ''USB Device Removed: '')
                    else
                      (if action = DBT_DEVICEARRIVAL then
                         ''Non-USB Device Interface Arrival (Potential Driver/Software Install?): ''
                       else ''Non-USB Device Interface Removal: ''))
                   @ decoded_path pf name)
         | _ \<Rightarrow> None)
      else if dbch_devicetype pHdr = DBT_DEVTYP_VOLUME then
        (if action = DBT_DEVICEARRIVAL then
           (case dbch_body pHdr of
              VolumeBody unitmask flags \<Rightarrow>
                Some (''Volume/Drive Mounted: '' @ [drive_letter unitmask]
                      @ [CHR '':'', CHR 0x5C])
            | _ \<Rightarrow> None)
         else Some ''Volume/Drive Removed.'')
      else None)"

definition event_text :: "platform \<Rightarrow> MSG \<Rightarrow> string option" where
  "event_text pf m =
     (if uMsg m = WM_DESTROY then Some ''Window destroyed, stopping message loop.''
      else if uMsg m = WM_CLIPBOARDUPDATE then
        Some ''Clipboard content changed (Copy/Paste detected).''
      else if uMsg m = WM_DEVICECHANGE
              \<and> (wParam m = DBT_DEVICEARRIVAL \<or> wParam m = DBT_DEVICEREMOVECOMPLETE)
      then (case lParam m of None \<Rightarrow> None | Some pHdr \<Rightarrow> device_event_text pf (wParam m) pHdr)
      else None)"

text \<open>Deliveries that hand a well-formed message to the window procedure.\<close>

fun is_message :: "delivery \<Rightarrow> bool" where
  "is_message (Sent m) = well_formed m"
| "is_message (Posted m) = well_formed m"
| "is_message (QuitMsg code) = False"
| "is_message GetMessageError = False"

text \<open>The four texts of a device-interface event, by class and direction.\<close>

definition interface_tag :: "bool \<Rightarrow> bool \<Rightarrow> string" where
  "interface_tag isUsbClass arrival =
     (if isUsbClass then
        (if arrival then ''USB Device Plugged In: '' else ''USB Device Removed: '')
      else
        (if arrival then
           ''Non-USB Device Interface Arrival (Potential Driver/Software Install?): ''
         else ''Non-USB Device Interface Removal: ''))"

text \<open>
  The log file takes every line: it is open, its failbit is clear and the disk accepts
  every write.
\<close>

definition healthy :: "platform \<Rightarrow> world \<Rightarrow> bool" where
  "healthy pf w \<longleftrightarrow> is_open w \<and> \<not> failbit w \<and> (\<forall>k. disk_accepts pf k)"

text \<open>The lines that the cleanup logs after the loop.\<close>

definition cleanup_texts :: "platform \<Rightarrow> string list" where
  "cleanup_texts pf =
     ''--- SecurityMonitor Stopping ---''
     # (if window_exists_at_exit pf then [''Window destroyed, stopping message loop.'']
        else [])"

text \<open>
  The directory of the log file can be determined: from the module's file name or,
  failing that, as the current directory.
\<close>

definition log_path_resolves :: "platform \<Rightarrow> bool" where
  "log_path_resolves pf \<longleftrightarrow> \<not> isl (GetModuleFileNameW pf) \<or> \<not> isl (current_path pf)"

subsection \<open>Concrete inputs\<close>

text \<open>
  A platform on which every call succeeds, device paths are ASCII, and nothing is
  delivered; single fields are changed where an example needs it.
\<close>

definition example_platform :: platform where
  "example_platform =
     \<lparr>local_time = (\<lambda>k. Inr ''[2024-05-01 10:00:00] ''),
      disk_accepts = (\<lambda>k. True),
      FormatMessageA = (\<lambda>code. ''Access is denied.''),
      utf8_of = (\<lambda>ws. Some (map (\<lambda>c. char_of (unat c)) ws)),
      DefWindowProc = (\<lambda>m. 0),
      GetModuleFileNameW = Inr ''C:/monitor/SecurityMonitor.exe'',
      parent_path = (\<lambda>p. ''C:/monitor''),
      path_append = (\<lambda>dir name. dir @ ''/'' @ name),
      current_path = Inr ''C:/'',
      log_open_succeeds = True,
      RegisterClassW = Succeeded,
      CreateWindowExW = Succeeded,
      AddClipboardFormatListener = Succeeded,
      RegisterDeviceNotification = Succeeded,
      window_exists_at_exit = False,
      deliveries = []\<rparr>"

definition example_header :: "DWORD \<Rightarrow> broadcast_body \<Rightarrow> DEV_BROADCAST_HDR" where
  "example_header devicetype body =
     \<lparr>dbch_size = 0, dbch_devicetype = devicetype, dbch_reserved = 0, dbch_body = body\<rparr>"

definition device_change :: "WPARAM \<Rightarrow> DEV_BROADCAST_HDR option \<Rightarrow> MSG" where
  "device_change action p = \<lparr>uMsg = WM_DEVICECHANGE, wParam = action, lParam = p\<rparr>"

definition clipboard_update :: MSG where
  "clipboard_update = \<lparr>uMsg = WM_CLIPBOARDUPDATE, wParam = 0, lParam = None\<rparr>"

text \<open>The wide string \<open>USB\<close>.\<close>

definition example_name :: "wchar_t list" where
  "example_name = [0x55, 0x53, 0x42]"

text \<open>The class identifier of a disk interface, \<open>GUID_DEVINTERFACE_DISK\<close>.\<close>

definition example_other_guid :: GUID where
  "example_other_guid =
     \<lparr>Data1 = 0x53F56307, Data2 = 0xB6BF, Data3 = 0x11D0,
      Data4 = [0x94, 0xF2, 0x00, 0xA0, 0xC9, 0x1E, 0xFB, 0x8B]\<rparr>"

text \<open>The state of a run whose log file is open and empty.\<close>

definition example_world :: world where
  "example_world = initial_world\<lparr>is_open := True\<rparr>"

text \<open>
  A run in which the registration for device notifications fails with error 5, and two
  clipboard changes and the arrival of a USB device are delivered before \<open>WM_QUIT\<close>.
\<close>

definition example_run :: platform where
  "example_run =
     example_platform
       \<lparr>RegisterDeviceNotification := Failed 5,
        deliveries :=
          [Posted clipboard_update,
           Sent (device_change DBT_DEVICEARRIVAL
                   (Some (example_header DBT_DEVTYP_DEVICEINTERFACE
                      (DeviceInterfaceBody GUID_DEVINTERFACE_USB_DEVICE example_name)))),
           Posted clipboard_update,
           QuitMsg 0]\<rparr>"

section \<open>Logging: basic facts\<close>

lemma LogEvent_cout:
  "cout (LogEvent pf t w) = cout w @ [stamp_at pf (clock_reads w) @ t]"
  by (simp add: LogEvent_def GetTimestamp_def write_log_def stamp_at_def Let_def
      split: sum.splits prod.splits)

lemma LogEvent_default_handled: "default_handled (LogEvent pf t w) = default_handled w"
  by (simp add: LogEvent_def GetTimestamp_def write_log_def Let_def
      split: sum.splits prod.splits)

lemma LogEvent_file:
  "is_open w \<Longrightarrow> \<not> failbit w \<Longrightarrow> disk_accepts pf (disk_writes w) \<Longrightarrow>
   g_logFile (LogEvent pf t w) = g_logFile w @ [stamp_at pf (clock_reads w) @ t]"
  by (simp add: LogEvent_def GetTimestamp_def write_log_def stamp_at_def Let_def
      split: sum.splits prod.splits)

lemma LogError_cout:
  "cout (LogError pf context code w) =
   cout w @ [stamp_at pf (clock_reads w) @ ''ERROR in '' @ context @ '': ''
             @ FormatMessageA pf code @ '' (Code: '' @ to_string (unat code) @ '')'']"
  by (simp add: LogError_def LogEvent_cout)

lemma IsEqualGUID_iff: "IsEqualGUID a b \<longleftrightarrow> a = b"
  by (cases a, cases b) (simp add: IsEqualGUID_def)

lemma devPathA_decoded: "devPathA pf name = decoded_path pf name"
  by (simp add: devPathA_def decoded_path_def WideCharToMultiByte_def Let_def
      split: option.splits)

section \<open>The drive letter\<close>

lemma drive_letter_from_lowest:
  "k \<le> i \<Longrightarrow> i < 26 \<Longrightarrow> bit driveMask i \<Longrightarrow>
   (\<forall>j. k \<le> j \<and> j < i \<longrightarrow> \<not> bit driveMask j) \<Longrightarrow>
   drive_letter_from driveMask k = char_of (of_char (CHR ''A'') + i)"
proof (induction "i - k" arbitrary: k)
  case 0
  then have "k = i" by simp
  with 0 show ?case
    by (subst drive_letter_from.simps) (simp add: bit_iff_and_push_bit_not_eq_0)
next
  case (Suc d)
  then have lt: "k < i" and nb: "\<not> bit driveMask k" by auto
  have "drive_letter_from driveMask (Suc k) = char_of (of_char (CHR ''A'') + i)"
    using Suc by (intro Suc.hyps(1)) auto
  with lt nb Suc.prems show ?case
    by (subst drive_letter_from.simps) (simp add: bit_iff_and_push_bit_not_eq_0)
qed

lemma drive_letter_from_none:
  "(\<forall>j. k \<le> j \<and> j < 26 \<longrightarrow> \<not> bit driveMask j) \<Longrightarrow>
   drive_letter_from driveMask k = CHR ''?''"
proof (induction "26 - k" arbitrary: k)
  case 0
  then show ?case by (subst drive_letter_from.simps) simp
next
  case (Suc d)
  then have "drive_letter_from driveMask (Suc k) = CHR ''?''"
    by (intro Suc.hyps(1)) auto
  with Suc.prems Suc.hyps(2) show ?case
    by (subst drive_letter_from.simps) (simp add: bit_iff_and_push_bit_not_eq_0)
qed

text \<open>
  C2. The letter decoded from a unit mask is fixed by the lowest set bit among the 26:
  a mask with the single bit \<open>i\<close> gives the \<open>i\<close>-th letter after \<open>A\<close>; when several bits
  are set the lowest one decides; when none of the 26 is set the letter is \<open>?\<close>.
\<close>

theorem drive_letter_lowest_set_bit:
  "(i < 26 \<longrightarrow> drive_letter (push_bit i 1) = char_of (of_char (CHR ''A'') + i)) \<and>
   (i < 26 \<and> bit driveMask i \<and> (\<forall>j<i. \<not> bit driveMask j) \<longrightarrow>
      drive_letter driveMask = char_of (of_char (CHR ''A'') + i)) \<and>
   ((\<forall>j<26. \<not> bit driveMask j) \<longrightarrow> drive_letter driveMask = CHR ''?'')"
proof (intro conjI impI)
  assume "i < 26"
  then show "drive_letter (push_bit i 1) = char_of (of_char (CHR ''A'') + i)"
    unfolding drive_letter_def
    by (intro drive_letter_from_lowest) (auto simp: bit_exp_iff)
next
  assume "i < 26 \<and> bit driveMask i \<and> (\<forall>j<i. \<not> bit driveMask j)"
  then show "drive_letter driveMask = char_of (of_char (CHR ''A'') + i)"
    unfolding drive_letter_def by (intro drive_letter_from_lowest) auto
next
  assume "\<forall>j<26. \<not> bit driveMask j"
  then show "drive_letter driveMask = CHR ''?''"
    unfolding drive_letter_def by (intro drive_letter_from_none) auto
qed

theorem drive_letter_lowest_set_bit_witness:
  "drive_letter (push_bit 2 1) = CHR ''C'' \<and> drive_letter 6 = CHR ''B''
   \<and> drive_letter 0 = CHR ''?''"
  using drive_letter_lowest_set_bit [of 2 0] drive_letter_lowest_set_bit [of 1 6]
  by (simp add: less_Suc_eq char_of_def bit_Suc_0_iff)

section \<open>The window procedure: one message\<close>

lemma ids_distinct [simp]:
  "WM_DEVICECHANGE \<noteq> WM_DESTROY" "WM_DESTROY \<noteq> WM_DEVICECHANGE"
  "WM_DEVICECHANGE \<noteq> WM_CLIPBOARDUPDATE" "WM_CLIPBOARDUPDATE \<noteq> WM_DEVICECHANGE"
  "WM_CLIPBOARDUPDATE \<noteq> WM_DESTROY" "WM_DESTROY \<noteq> WM_CLIPBOARDUPDATE"
  "DBT_DEVICEARRIVAL \<noteq> DBT_DEVICEREMOVECOMPLETE"
  "DBT_DEVICEREMOVECOMPLETE \<noteq> DBT_DEVICEARRIVAL"
  "DBT_DEVTYP_VOLUME \<noteq> DBT_DEVTYP_DEVICEINTERFACE"
  "DBT_DEVTYP_DEVICEINTERFACE \<noteq> DBT_DEVTYP_VOLUME"
  by (simp_all add: WM_DEVICECHANGE_def WM_DESTROY_def WM_CLIPBOARDUPDATE_def
      DBT_DEVICEARRIVAL_def DBT_DEVICEREMOVECOMPLETE_def DBT_DEVTYP_VOLUME_def
      DBT_DEVTYP_DEVICEINTERFACE_def)

lemma WindowProc_cout:
  "WindowProc pf m w = Inr (r, w') \<Longrightarrow>
   cout w' = cout w @ (case event_text pf m of None \<Rightarrow> []
                       | Some t \<Rightarrow> [stamp_at pf (clock_reads w) @ t])"
  by (auto simp: WindowProc_def event_text_def device_event_text_def LogEvent_cout
      PostQuitMessage_def IsEqualGUID_iff devPathA_decoded
      split: if_splits option.splits broadcast_body.splits)

lemma WindowProc_file:
  "WindowProc pf m w = Inr (r, w') \<Longrightarrow> is_open w \<Longrightarrow> \<not> failbit w \<Longrightarrow>
   disk_accepts pf (disk_writes w) \<Longrightarrow>
   g_logFile w' = g_logFile w @ (case event_text pf m of None \<Rightarrow> []
                       | Some t \<Rightarrow> [stamp_at pf (clock_reads w) @ t])"
  by (auto simp: WindowProc_def event_text_def device_event_text_def LogEvent_file
      PostQuitMessage_def IsEqualGUID_iff devPathA_decoded
      split: if_splits option.splits broadcast_body.splits)

lemma WindowProc_well_formed:
  "well_formed m \<Longrightarrow> \<exists>r w'. WindowProc pf m w = Inr (r, w')"
  by (auto simp: WindowProc_def well_formed_def
      split: if_splits option.splits broadcast_body.splits)

lemma example_values [simp]:
  "stamp_at example_platform k = ''[2024-05-01 10:00:00] ''"
  "disk_accepts example_platform k"
  "cout example_world = []" "g_logFile example_world = []" "clock_reads example_world = 0"
  "is_open example_world" "\<not> failbit example_world" "default_handled example_world = []"
  "decoded_path example_platform example_name = ''USB''"
  "example_other_guid \<noteq> GUID_DEVINTERFACE_USB_DEVICE"
  by (simp_all add: stamp_at_def example_platform_def example_world_def initial_world_def
      decoded_path_def example_name_def char_of_def bit_Suc_0_iff example_other_guid_def
      GUID_DEVINTERFACE_USB_DEVICE_def)

text \<open>
  C1. A device-interface notification, arrival or removal, is logged as a USB event
  exactly when its class identifier is the USB device-interface identifier; with any other
  identifier it is logged as a non-USB device-interface event, and in either case the text
  is the one for the arrival or for the removal. The line goes to the console and, when
  the log file takes the write, to the log file.
\<close>

theorem usb_class_discrimination:
  assumes "action = DBT_DEVICEARRIVAL \<or> action = DBT_DEVICEREMOVECOMPLETE"
    and "dbch_devicetype pHdr = DBT_DEVTYP_DEVICEINTERFACE"
    and "dbch_body pHdr = DeviceInterfaceBody classguid name"
  shows "\<exists>w'. WindowProc pf \<lparr>uMsg = WM_DEVICECHANGE, wParam = action, lParam = Some pHdr\<rparr> w
               = Inr (TRUE, w')
           \<and> cout w' = cout w @
               [stamp_at pf (clock_reads w)
                @ interface_tag (classguid = GUID_DEVINTERFACE_USB_DEVICE)
                                (action = DBT_DEVICEARRIVAL)
                @ decoded_path pf name]
           \<and> (is_open w \<and> \<not> failbit w \<and> disk_accepts pf (disk_writes w) \<longrightarrow>
              g_logFile w' = g_logFile w @
               [stamp_at pf (clock_reads w)
                @ interface_tag (classguid = GUID_DEVINTERFACE_USB_DEVICE)
                                (action = DBT_DEVICEARRIVAL)
                @ decoded_path pf name])"
  using assms
  by (auto simp: WindowProc_def LogEvent_cout LogEvent_file IsEqualGUID_iff interface_tag_def
      devPathA_decoded)

theorem usb_class_discrimination_witness:
  "(\<exists>w'. WindowProc example_platform
           \<lparr>uMsg = WM_DEVICECHANGE, wParam = DBT_DEVICEARRIVAL,
            lParam = Some (example_header DBT_DEVTYP_DEVICEINTERFACE
                       (DeviceInterfaceBody GUID_DEVINTERFACE_USB_DEVICE example_name))\<rparr>
           example_world = Inr (TRUE, w')
         \<and> cout w' = [''[2024-05-01 10:00:00] USB Device Plugged In: USB'']
         \<and> g_logFile w' = [''[2024-05-01 10:00:00] USB Device Plugged In: USB'']) \<and>
   (\<exists>w'. WindowProc example_platform
           \<lparr>uMsg = WM_DEVICECHANGE, wParam = DBT_DEVICEREMOVECOMPLETE,
            lParam = Some (example_header DBT_DEVTYP_DEVICEINTERFACE
                       (DeviceInterfaceBody example_other_guid example_name))\<rparr>
           example_world = Inr (TRUE, w')
         \<and> cout w' = [''[2024-05-01 10:00:00] Non-USB Device Interface Removal: USB'']
         \<and> g_logFile w' = [''[2024-05-01 10:00:00] Non-USB Device Interface Removal: USB''])"
  using usb_class_discrimination
          [where action = DBT_DEVICEARRIVAL and pf = example_platform and w = example_world
             and pHdr = "example_header DBT_DEVTYP_DEVICEINTERFACE
                           (DeviceInterfaceBody GUID_DEVINTERFACE_USB_DEVICE example_name)"
             and classguid = GUID_DEVINTERFACE_USB_DEVICE and name = example_name]
        usb_class_discrimination
          [where action = DBT_DEVICEREMOVECOMPLETE and pf = example_platform
             and w = example_world
             and pHdr = "example_header DBT_DEVTYP_DEVICEINTERFACE
                           (DeviceInterfaceBody example_other_guid example_name)"
             and classguid = example_other_guid and name = example_name]
  by (simp add: example_header_def interface_tag_def)

text \<open>
  C9. For a device-interface notification the wide device path is converted to UTF-8
  and appears once in the logged line, behind the event's text; when the conversion fails,
  or the path has no characters, the path in the line is empty and the event is logged
  all the same.
\<close>

theorem device_path_decoded:
  assumes "action = DBT_DEVICEARRIVAL \<or> action = DBT_DEVICEREMOVECOMPLETE"
    and "dbch_devicetype pHdr = DBT_DEVTYP_DEVICEINTERFACE"
    and "dbch_body pHdr = DeviceInterfaceBody classguid name"
  shows "\<exists>w'. WindowProc pf \<lparr>uMsg = WM_DEVICECHANGE, wParam = action, lParam = Some pHdr\<rparr> w
               = Inr (TRUE, w')
           \<and> cout w' = cout w @
               [stamp_at pf (clock_reads w)
                @ interface_tag (IsEqualGUID classguid GUID_DEVINTERFACE_USB_DEVICE)
                                (action = DBT_DEVICEARRIVAL)
                @ (if name = [] then []
                   else case utf8_of pf name of None \<Rightarrow> [] | Some s \<Rightarrow> s)]"
  using assms
  by (auto simp: WindowProc_def LogEvent_cout interface_tag_def devPathA_decoded
      decoded_path_def)

theorem device_path_decoded_witness:
  "(\<exists>w'. WindowProc (example_platform\<lparr>utf8_of := \<lambda>ws. None\<rparr>)
           \<lparr>uMsg = WM_DEVICECHANGE, wParam = DBT_DEVICEARRIVAL,
            lParam = Some (example_header DBT_DEVTYP_DEVICEINTERFACE
                       (DeviceInterfaceBody GUID_DEVINTERFACE_USB_DEVICE example_name))\<rparr>
           example_world = Inr (TRUE, w')
         \<and> cout w' = [''[2024-05-01 10:00:00] USB Device Plugged In: '']) \<and>
   (\<exists>w'. WindowProc example_platform
           \<lparr>uMsg = WM_DEVICECHANGE, wParam = DBT_DEVICEARRIVAL,
            lParam = Some (example_header DBT_DEVTYP_DEVICEINTERFACE
                       (DeviceInterfaceBody GUID_DEVINTERFACE_USB_DEVICE []))\<rparr>
           example_world = Inr (TRUE, w')
         \<and> cout w' = [''[2024-05-01 10:00:00] USB Device Plugged In: '']) \<and>
   (\<exists>w'. WindowProc example_platform
           \<lparr>uMsg = WM_DEVICECHANGE, wParam = DBT_DEVICEARRIVAL,
            lParam = Some (example_header DBT_DEVTYP_DEVICEINTERFACE
                       (DeviceInterfaceBody GUID_DEVINTERFACE_USB_DEVICE example_name))\<rparr>
           example_world = Inr (TRUE, w')
         \<and> cout w' = [''[2024-05-01 10:00:00] USB Device Plugged In: USB''])"
  using device_path_decoded
          [where action = DBT_DEVICEARRIVAL and pf = "example_platform\<lparr>utf8_of := \<lambda>ws. None\<rparr>"
             and w = example_world
             and pHdr = "example_header DBT_DEVTYP_DEVICEINTERFACE
                           (DeviceInterfaceBody GUID_DEVINTERFACE_USB_DEVICE example_name)"
             and classguid = GUID_DEVINTERFACE_USB_DEVICE and name = example_name]
        device_path_decoded
          [where action = DBT_DEVICEARRIVAL and pf = example_platform and w = example_world
             and pHdr = "example_header DBT_DEVTYP_DEVICEINTERFACE
                           (DeviceInterfaceBody GUID_DEVINTERFACE_USB_DEVICE [])"
             and classguid = GUID_DEVINTERFACE_USB_DEVICE and name = "[]"]
        device_path_decoded
          [where action = DBT_DEVICEARRIVAL and pf = example_platform and w = example_world
             and pHdr = "example_header DBT_DEVTYP_DEVICEINTERFACE
                           (DeviceInterfaceBody GUID_DEVINTERFACE_USB_DEVICE example_name)"
             and classguid = GUID_DEVINTERFACE_USB_DEVICE and name = example_name]
  by (simp add: example_header_def interface_tag_def IsEqualGUID_iff stamp_at_def
      example_platform_def example_name_def char_of_def bit_Suc_0_iff)

text \<open>
  C4, as the code has it. A device-change notification that is an arrival or a removal
  and whose device type is neither a device interface nor a volume logs nothing and
  changes nothing: the window procedure returns \<open>TRUE\<close> with the state it was given. The
  program has no event for an unrecognised device type.
\<close>

theorem unknown_device_type_logs_nothing:
  assumes "action = DBT_DEVICEARRIVAL \<or> action = DBT_DEVICEREMOVECOMPLETE"
    and "dbch_devicetype pHdr \<noteq> DBT_DEVTYP_DEVICEINTERFACE"
    and "dbch_devicetype pHdr \<noteq> DBT_DEVTYP_VOLUME"
  shows "WindowProc pf \<lparr>uMsg = WM_DEVICECHANGE, wParam = action, lParam = Some pHdr\<rparr> w
         = Inr (TRUE, w)"
  using assms by (auto simp: WindowProc_def)

theorem unknown_device_type_logs_nothing_witness:
  "WindowProc example_platform
     \<lparr>uMsg = WM_DEVICECHANGE, wParam = DBT_DEVICEREMOVECOMPLETE,
      lParam = Some (example_header 3 (OtherBody []))\<rparr> example_world
   = Inr (TRUE, example_world)"
  using unknown_device_type_logs_nothing
          [where action = DBT_DEVICEREMOVECOMPLETE and pHdr = "example_header 3 (OtherBody [])"
             and pf = example_platform and w = example_world]
  by (simp add: example_header_def DBT_DEVTYP_DEVICEINTERFACE_def DBT_DEVTYP_VOLUME_def)

text \<open>
  The arrival of a serial port (device type 3, \<open>DBT_DEVTYP_PORT\<close>): the window procedure
  returns the state unchanged, so no line was written to the console or to the log file.
\<close>

theorem unknown_device_type_counterexample:
  "WindowProc example_platform
     \<lparr>uMsg = WM_DEVICECHANGE, wParam = DBT_DEVICEARRIVAL,
      lParam = Some (example_header 3 (OtherBody []))\<rparr> example_world
   = Inr (TRUE, example_world)
   \<and> cout example_world = [] \<and> g_logFile example_world = []"
  by (simp add: WindowProc_def example_header_def DBT_DEVTYP_DEVICEINTERFACE_def
      DBT_DEVTYP_VOLUME_def)

text \<open>
  C5, as the code has it. The arrival of a volume decodes the unit mask into one drive
  letter (the lowest set bit among the 26 decides, \<open>?\<close> when none is set) and logs the
  mount with that letter. The removal of a volume logs a fixed text: the unit mask is
  not read and the line carries no drive letter.
\<close>

theorem volume_events:
  assumes "dbch_devicetype pHdr = DBT_DEVTYP_VOLUME"
    and "dbch_body pHdr = VolumeBody unitmask flags"
  shows "(\<exists>w'. WindowProc pf
                 \<lparr>uMsg = WM_DEVICECHANGE, wParam = DBT_DEVICEARRIVAL, lParam = Some pHdr\<rparr> w
               = Inr (TRUE, w')
             \<and> cout w' = cout w @
                 [stamp_at pf (clock_reads w) @ ''Volume/Drive Mounted: ''
                  @ [drive_letter unitmask] @ [CHR '':'', CHR 0x5C]]) \<and>
         (i < 26 \<and> bit unitmask i \<and> (\<forall>j<i. \<not> bit unitmask j) \<longrightarrow>
            drive_letter unitmask = char_of (of_char (CHR ''A'') + i)) \<and>
         ((\<forall>j<26. \<not> bit unitmask j) \<longrightarrow> drive_letter unitmask = CHR ''?'') \<and>
         (\<exists>w'. WindowProc pf
                 \<lparr>uMsg = WM_DEVICECHANGE, wParam = DBT_DEVICEREMOVECOMPLETE,
                  lParam = Some pHdr\<rparr> w
               = Inr (TRUE, w')
             \<and> cout w' = cout w @ [stamp_at pf (clock_reads w) @ ''Volume/Drive Removed.''])"
proof (intro conjI impI)
  show "\<exists>w'. WindowProc pf
               \<lparr>uMsg = WM_DEVICECHANGE, wParam = DBT_DEVICEARRIVAL, lParam = Some pHdr\<rparr> w
             = Inr (TRUE, w')
           \<and> cout w' = cout w @
               [stamp_at pf (clock_reads w) @ ''Volume/Drive Mounted: ''
                @ [drive_letter unitmask] @ [CHR '':'', CHR 0x5C]]"
    using assms by (simp add: WindowProc_def LogEvent_cout)
next
  assume "i < 26 \<and> bit unitmask i \<and> (\<forall>j<i. \<not> bit unitmask j)"
  then show "drive_letter unitmask = char_of (of_char (CHR ''A'') + i)"
    unfolding drive_letter_def by (intro drive_letter_from_lowest) auto
next
  assume "\<forall>j<26. \<not> bit unitmask j"
  then show "drive_letter unitmask = CHR ''?''"
    unfolding drive_letter_def by (intro drive_letter_from_none) auto
next
  show "\<exists>w'. WindowProc pf
               \<lparr>uMsg = WM_DEVICECHANGE, wParam = DBT_DEVICEREMOVECOMPLETE,
                lParam = Some pHdr\<rparr> w
             = Inr (TRUE, w')
           \<and> cout w' = cout w @ [stamp_at pf (clock_reads w) @ ''Volume/Drive Removed.'']"
    using assms by (simp add: WindowProc_def LogEvent_cout)
qed

theorem volume_events_witness:
  "(\<exists>w'. WindowProc example_platform
           \<lparr>uMsg = WM_DEVICECHANGE, wParam = DBT_DEVICEARRIVAL,
            lParam = Some (example_header DBT_DEVTYP_VOLUME (VolumeBody 4 0))\<rparr> example_world
          = Inr (TRUE, w')
        \<and> cout w' = [''[2024-05-01 10:00:00] Volume/Drive Mounted: ''
                       @ [drive_letter 4] @ [CHR '':'', CHR 0x5C]]) \<and>
   drive_letter 4 = CHR ''C'' \<and>
   (\<exists>w'. WindowProc example_platform
           \<lparr>uMsg = WM_DEVICECHANGE, wParam = DBT_DEVICEREMOVECOMPLETE,
            lParam = Some (example_header DBT_DEVTYP_VOLUME (VolumeBody 4 0))\<rparr> example_world
          = Inr (TRUE, w')
        \<and> cout w' = [''[2024-05-01 10:00:00] Volume/Drive Removed.''])"
proof -
  have low: "bit (4 :: 32 word) 2 \<and> (\<forall>j<2. \<not> bit (4 :: 32 word) j)"
    by (simp add: less_Suc_eq numeral_2_eq_2)
  note inst = volume_events
          [where pHdr = "example_header DBT_DEVTYP_VOLUME (VolumeBody 4 0)"
             and unitmask = 4 and flags = 0 and pf = example_platform and w = example_world
             and i = 2]
  have "drive_letter 4 = char_of (of_char (CHR ''A'') + (2 :: nat))"
    using inst low by (simp add: example_header_def)
  then have "drive_letter 4 = CHR ''C''"
    by (simp add: char_of_def bit_Suc_0_iff)
  then show ?thesis
    using inst by (simp add: example_header_def)
qed

text \<open>
  The removal of a volume logs the same line for the unit masks of drive \<open>C\<close> and of
  drive \<open>A\<close>: the event does not carry the drive letter.
\<close>

theorem volume_removal_counterexample:
  "WindowProc example_platform
     \<lparr>uMsg = WM_DEVICECHANGE, wParam = DBT_DEVICEREMOVECOMPLETE,
      lParam = Some (example_header DBT_DEVTYP_VOLUME (VolumeBody 4 0))\<rparr> example_world
   = Inr (TRUE, LogEvent example_platform ''Volume/Drive Removed.'' example_world)
   \<and> WindowProc example_platform
     \<lparr>uMsg = WM_DEVICECHANGE, wParam = DBT_DEVICEREMOVECOMPLETE,
      lParam = Some (example_header DBT_DEVTYP_VOLUME (VolumeBody 1 0))\<rparr> example_world
   = Inr (TRUE, LogEvent example_platform ''Volume/Drive Removed.'' example_world)
   \<and> cout (LogEvent example_platform ''Volume/Drive Removed.'' example_world)
     = [''[2024-05-01 10:00:00] Volume/Drive Removed.'']
   \<and> drive_letter 4 = CHR ''C'' \<and> drive_letter 1 = CHR ''A''"
proof -
  have "drive_letter 4 = CHR ''C''" "drive_letter 1 = CHR ''A''"
    by code_simp+
  then show ?thesis
    by (simp add: WindowProc_def example_header_def LogEvent_cout)
qed

text \<open>
  C3, as the code has it. For every message whose payload is null or is the structure
  that its header announces (whatever the action code, the device type or the length of
  the device path) the window procedure returns, and it writes nothing or exactly one
  line, whose text is a function of the message alone. A payload whose body is not the
  structure that its header announces is outside this: the code reads the fields of the
  announced structure without a check.
\<close>

theorem classification_total:
  assumes "well_formed m"
  shows "\<exists>r w'. WindowProc pf m w = Inr (r, w')
           \<and> cout w' = cout w @ (case event_text pf m of
                                   None \<Rightarrow> []
                                 | Some t \<Rightarrow> [stamp_at pf (clock_reads w) @ t])"
proof -
  from assms obtain r w' where ret: "WindowProc pf m w = Inr (r, w')"
    using WindowProc_well_formed by blast
  from WindowProc_cout [OF ret] ret show ?thesis by blast
qed

theorem classification_total_witness:
  "(\<exists>r w'. WindowProc example_platform
             \<lparr>uMsg = WM_DEVICECHANGE, wParam = DBT_DEVICEARRIVAL,
              lParam = Some (example_header DBT_DEVTYP_DEVICEINTERFACE
                         (DeviceInterfaceBody example_other_guid []))\<rparr> example_world
            = Inr (r, w')
          \<and> cout w' = [''[2024-05-01 10:00:00] Non-USB Device Interface Arrival (Potential Driver/Software Install?): '']) \<and>
   (\<exists>r w'. WindowProc example_platform
             \<lparr>uMsg = WM_DEVICECHANGE, wParam = 7,
              lParam = Some (example_header DBT_DEVTYP_VOLUME (VolumeBody 4 0))\<rparr>
             example_world
            = Inr (r, w') \<and> cout w' = []) \<and>
   (\<exists>r w'. WindowProc example_platform
             \<lparr>uMsg = WM_DEVICECHANGE, wParam = DBT_DEVICEARRIVAL, lParam = None\<rparr>
             example_world
            = Inr (r, w') \<and> cout w' = []) \<and>
   (\<exists>r w'. WindowProc example_platform
             \<lparr>uMsg = WM_DEVICECHANGE, wParam = DBT_DEVICEARRIVAL,
              lParam = Some (example_header 3 (OtherBody []))\<rparr> example_world
            = Inr (r, w') \<and> cout w' = [])"
  using classification_total
          [where pf = example_platform and w = example_world
             and m = "\<lparr>uMsg = WM_DEVICECHANGE, wParam = DBT_DEVICEARRIVAL,
                       lParam = Some (example_header DBT_DEVTYP_DEVICEINTERFACE
                         (DeviceInterfaceBody example_other_guid []))\<rparr>"]
        classification_total
          [where pf = example_platform and w = example_world
             and m = "\<lparr>uMsg = WM_DEVICECHANGE, wParam = 7,
                       lParam = Some (example_header DBT_DEVTYP_VOLUME (VolumeBody 4 0))\<rparr>"]
        classification_total
          [where pf = example_platform and w = example_world
             and m = "\<lparr>uMsg = WM_DEVICECHANGE, wParam = DBT_DEVICEARRIVAL, lParam = None\<rparr>"]
        classification_total
          [where pf = example_platform and w = example_world
             and m = "\<lparr>uMsg = WM_DEVICECHANGE, wParam = DBT_DEVICEARRIVAL,
                       lParam = Some (example_header 3 (OtherBody []))\<rparr>"]
  by (simp add: well_formed_def example_header_def event_text_def device_event_text_def
      decoded_path_def DBT_DEVICEARRIVAL_def DBT_DEVICEREMOVECOMPLETE_def
      DBT_DEVTYP_DEVICEINTERFACE_def DBT_DEVTYP_VOLUME_def)

text \<open>
  A notification whose header announces a device interface and which is followed by no
  device-interface structure: the window procedure reads \<open>dbcc_classguid\<close> and
  \<open>dbcc_name\<close> where there are none.
\<close>

theorem malformed_payload_counterexample:
  "WindowProc example_platform
     \<lparr>uMsg = WM_DEVICECHANGE, wParam = DBT_DEVICEARRIVAL,
      lParam = Some (example_header DBT_DEVTYP_DEVICEINTERFACE (OtherBody []))\<rparr>
     example_world
   = Inl UndefinedBehaviour"
  by (simp add: WindowProc_def example_header_def)

text \<open>
  C10. A device-change message never reaches the default window procedure and the value
  returned for it is \<open>TRUE\<close>, whatever its action code and device type, also when it logs
  nothing. The clipboard and destroy messages return 0 and do not reach the default
  procedure either; every other message is handed to it, and its result is returned.
\<close>

theorem device_change_always_handled:
  "(uMsg m = WM_DEVICECHANGE \<and> well_formed m \<longrightarrow>
      (\<exists>w'. WindowProc pf m w = Inr (TRUE, w') \<and> default_handled w' = default_handled w)) \<and>
   (uMsg m = WM_DEVICECHANGE \<longrightarrow>
      (\<forall>r w'. WindowProc pf m w = Inr (r, w') \<longrightarrow>
         r = TRUE \<and> default_handled w' = default_handled w)) \<and>
   (uMsg m = WM_CLIPBOARDUPDATE \<or> uMsg m = WM_DESTROY \<longrightarrow>
      (\<exists>w'. WindowProc pf m w = Inr (0, w') \<and> default_handled w' = default_handled w)) \<and>
   (uMsg m \<noteq> WM_DEVICECHANGE \<and> uMsg m \<noteq> WM_CLIPBOARDUPDATE \<and> uMsg m \<noteq> WM_DESTROY \<longrightarrow>
      WindowProc pf m w
      = Inr (DefWindowProc pf m, w\<lparr>default_handled := default_handled w @ [m]\<rparr>))"
proof -
  have a: "uMsg m = WM_DEVICECHANGE \<and> well_formed m \<longrightarrow>
      (\<exists>w'. WindowProc pf m w = Inr (TRUE, w') \<and> default_handled w' = default_handled w)"
    by (auto simp: WindowProc_def well_formed_def LogEvent_default_handled
        split: option.splits broadcast_body.splits)
  have b: "uMsg m = WM_DEVICECHANGE \<longrightarrow>
      (\<forall>r w'. WindowProc pf m w = Inr (r, w') \<longrightarrow>
         r = TRUE \<and> default_handled w' = default_handled w)"
    by (auto simp: WindowProc_def LogEvent_default_handled
        split: if_splits option.splits broadcast_body.splits)
  have c: "uMsg m = WM_CLIPBOARDUPDATE \<or> uMsg m = WM_DESTROY \<longrightarrow>
      (\<exists>w'. WindowProc pf m w = Inr (0, w') \<and> default_handled w' = default_handled w)"
    by (auto simp: WindowProc_def LogEvent_default_handled PostQuitMessage_def)
  have d: "uMsg m \<noteq> WM_DEVICECHANGE \<and> uMsg m \<noteq> WM_CLIPBOARDUPDATE \<and> uMsg m \<noteq> WM_DESTROY \<longrightarrow>
      WindowProc pf m w
      = Inr (DefWindowProc pf m, w\<lparr>default_handled := default_handled w @ [m]\<rparr>)"
    by (simp add: WindowProc_def)
  show ?thesis
    by (rule conjI [OF a conjI [OF b conjI [OF c d]]])
qed

theorem device_change_always_handled_witness:
  "(\<exists>w'. WindowProc example_platform
           \<lparr>uMsg = WM_DEVICECHANGE, wParam = 7, lParam = None\<rparr> example_world
          = Inr (TRUE, w') \<and> default_handled w' = []) \<and>
   (\<exists>w'. WindowProc example_platform
           \<lparr>uMsg = WM_DEVICECHANGE, wParam = DBT_DEVICEARRIVAL,
            lParam = Some (example_header 3 (OtherBody []))\<rparr> example_world
          = Inr (TRUE, w') \<and> default_handled w' = []) \<and>
   (\<exists>w'. WindowProc example_platform clipboard_update example_world = Inr (0, w')
          \<and> default_handled w' = []) \<and>
   WindowProc example_platform \<lparr>uMsg = 0x0113, wParam = 1, lParam = None\<rparr> example_world
   = Inr (0, example_world
            \<lparr>default_handled := [\<lparr>uMsg = 0x0113, wParam = 1, lParam = None\<rparr>]\<rparr>)"
  using device_change_always_handled
          [where pf = example_platform and w = example_world
             and m = "\<lparr>uMsg = WM_DEVICECHANGE, wParam = 7, lParam = None\<rparr>"]
        device_change_always_handled
          [where pf = example_platform and w = example_world
             and m = "\<lparr>uMsg = WM_DEVICECHANGE, wParam = DBT_DEVICEARRIVAL,
                       lParam = Some (example_header 3 (OtherBody []))\<rparr>"]
        device_change_always_handled
          [where pf = example_platform and w = example_world and m = clipboard_update]
        device_change_always_handled
          [where pf = example_platform and w = example_world
             and m = "\<lparr>uMsg = 0x0113, wParam = 1, lParam = None\<rparr>"]
  by (simp add: well_formed_def example_header_def clipboard_update_def
      DBT_DEVTYP_DEVICEINTERFACE_def DBT_DEVTYP_VOLUME_def WM_DEVICECHANGE_def
      WM_CLIPBOARDUPDATE_def WM_DESTROY_def example_platform_def)

section \<open>The message loop\<close>

lemma example_platform_fields [simp]:
  "GetModuleFileNameW example_platform = Inr ''C:/monitor/SecurityMonitor.exe''"
  "parent_path example_platform p = ''C:/monitor''"
  "path_append example_platform dir name = dir @ ''/'' @ name"
  "current_path example_platform = Inr ''C:/''"
  "log_open_succeeds example_platform"
  "RegisterClassW example_platform = Succeeded"
  "CreateWindowExW example_platform = Succeeded"
  "AddClipboardFormatListener example_platform = Succeeded"
  "RegisterDeviceNotification example_platform = Succeeded"
  "\<not> window_exists_at_exit example_platform"
  "deliveries example_platform = []"
  "FormatMessageA example_platform code = ''Access is denied.''"
  "local_time example_platform k = Inr ''[2024-05-01 10:00:00] ''"
  by (simp_all add: example_platform_def)

lemma timed_stamp [simp]: "timed pf t (stamp_at pf k @ t)"
  by (auto simp: timed_def)

lemma LogEvent_healthy: "healthy pf w \<Longrightarrow> healthy pf (LogEvent pf t w)"
  by (simp add: healthy_def LogEvent_def GetTimestamp_def write_log_def Let_def
      split: sum.splits prod.splits)

lemma LogEvent_file_healthy:
  "healthy pf w \<Longrightarrow>
   g_logFile (LogEvent pf t w) = g_logFile w @ [stamp_at pf (clock_reads w) @ t]"
  by (simp add: healthy_def LogEvent_file)

lemma healthy_updates [simp]:
  "healthy pf (w\<lparr>quit_posted := q\<rparr>) = healthy pf w"
  "healthy pf (w\<lparr>default_handled := h\<rparr>) = healthy pf w"
  by (simp_all add: healthy_def)

lemma WindowProc_healthy:
  "WindowProc pf m w = Inr (r, w') \<Longrightarrow> healthy pf w \<Longrightarrow> healthy pf w'"
  by (auto simp: WindowProc_def LogEvent_healthy PostQuitMessage_def
      split: if_splits option.splits broadcast_body.splits)

text \<open>What one message adds to the console and, on a healthy log, to the file.\<close>

lemma WindowProc_step:
  assumes "well_formed m"
  shows "\<exists>r w' lines. WindowProc pf m w = Inr (r, w')
           \<and> cout w' = cout w @ lines
           \<and> list_all2 (timed pf) (List.map_filter (event_text pf) [m]) lines
           \<and> (healthy pf w \<longrightarrow> healthy pf w' \<and> g_logFile w' = g_logFile w @ lines)"
proof -
  from assms obtain r w' where ret: "WindowProc pf m w = Inr (r, w')"
    using WindowProc_well_formed by blast
  let ?lines = "case event_text pf m of None \<Rightarrow> []
                | Some t \<Rightarrow> [stamp_at pf (clock_reads w) @ t]"
  have c: "cout w' = cout w @ ?lines" by (rule WindowProc_cout [OF ret])
  have t: "list_all2 (timed pf) (List.map_filter (event_text pf) [m]) ?lines"
    by (simp add: List.map_filter_def split: option.splits)
  have h: "healthy pf w \<longrightarrow> healthy pf w' \<and> g_logFile w' = g_logFile w @ ?lines"
    using WindowProc_healthy [OF ret] WindowProc_file [OF ret] by (auto simp: healthy_def)
  from ret c t h show ?thesis by blast
qed

lemma map_filter_Cons:
  "List.map_filter f (x # xs) = List.map_filter f [x] @ List.map_filter f xs"
  by (simp add: List.map_filter_def)

lemma message_loop_prefix:
  assumes "\<forall>d\<in>set ds. is_message d"
  shows "\<exists>msg' w' lines.
           (\<forall>rest. message_loop pf (ds @ rest) msg w = message_loop pf rest msg' w')
           \<and> cout w' = cout w @ lines
           \<and> list_all2 (timed pf) (List.map_filter (event_text pf) (dispatched ds)) lines
           \<and> (healthy pf w \<longrightarrow> healthy pf w' \<and> g_logFile w' = g_logFile w @ lines)"
  using assms
proof (induction ds arbitrary: msg w)
  case Nil
  show ?case
    by (rule exI [of _ msg], rule exI [of _ w], rule exI [of _ "[]"])
       (simp add: List.map_filter_def)
next
  case (Cons d ds)
  then obtain m where d: "d = Sent m \<or> d = Posted m" and wf: "well_formed m"
    by (cases d) auto
  from WindowProc_step [OF wf, of pf w] obtain r w1 lines1 where
    ret: "WindowProc pf m w = Inr (r, w1)" and c1: "cout w1 = cout w @ lines1"
    and t1: "list_all2 (timed pf) (List.map_filter (event_text pf) [m]) lines1"
    and h1: "healthy pf w \<longrightarrow> healthy pf w1 \<and> g_logFile w1 = g_logFile w @ lines1"
    by blast
  define msg1 where "msg1 = (if d = Sent m then msg else m)"
  from Cons.prems have "\<forall>d\<in>set ds. is_message d" by simp
  from Cons.IH [OF this, of msg1 w1] obtain msg' w' lines2 where
    loop: "\<forall>rest. message_loop pf (ds @ rest) msg1 w1 = message_loop pf rest msg' w'"
    and c2: "cout w' = cout w1 @ lines2"
    and t2: "list_all2 (timed pf) (List.map_filter (event_text pf) (dispatched ds)) lines2"
    and h2: "healthy pf w1 \<longrightarrow> healthy pf w' \<and> g_logFile w' = g_logFile w1 @ lines2"
    by blast
  have step: "\<forall>rest. message_loop pf ((d # ds) @ rest) msg w = message_loop pf rest msg' w'"
    using d ret loop by (auto simp: msg1_def)
  have disp: "dispatched (d # ds) = m # dispatched ds"
    using d by auto
  have c: "cout w' = cout w @ (lines1 @ lines2)"
    using c1 c2 by simp
  have t: "list_all2 (timed pf) (List.map_filter (event_text pf) (dispatched (d # ds)))
             (lines1 @ lines2)"
    unfolding disp by (subst map_filter_Cons) (rule list_all2_appendI [OF t1 t2])
  have h: "healthy pf w \<longrightarrow> healthy pf w' \<and> g_logFile w' = g_logFile w @ (lines1 @ lines2)"
    using h1 h2 by simp
  from step c t h show ?case by blast
qed

lemma cleanup_result:
  "\<exists>w' tail. cleanup pf msg w = Inr (sint (ucast (wParam msg) :: 32 word), w')
     \<and> cout w' = cout w @ tail \<and> list_all2 (timed pf) (cleanup_texts pf) tail
     \<and> (healthy pf w \<longrightarrow> g_logFile w' = g_logFile w @ tail)"
  by (auto simp: cleanup_def cleanup_texts_def WindowProc_def LogEvent_cout Let_def
      PostQuitMessage_def LogEvent_file_healthy LogEvent_healthy)

section \<open>Start-up and the whole run\<close>

lemma GetExecutableDirectory_initial:
  "GetExecutableDirectory pf initial_world = (r, w1) \<Longrightarrow>
   g_logFile w1 = [] \<and> \<not> failbit w1 \<and> \<not> is_open w1"
  by (auto simp: GetExecutableDirectory_def initial_world_def LogError_def LogEvent_def
      GetTimestamp_def Let_def split: sum.splits prod.splits)

lemma GetExecutableDirectory_resolves:
  "log_path_resolves pf \<Longrightarrow>
   \<exists>projectDir w1. GetExecutableDirectory pf initial_world = (Inr projectDir, w1)"
  by (cases "GetModuleFileNameW pf"; cases "current_path pf")
     (auto simp: GetExecutableDirectory_def log_path_resolves_def Let_def)

lemma GetExecutableDirectory_fails:
  "\<not> log_path_resolves pf \<Longrightarrow>
   \<exists>what w1. GetExecutableDirectory pf initial_world = (Inl what, w1)"
  by (cases "GetModuleFileNameW pf"; cases "current_path pf")
     (auto simp: GetExecutableDirectory_def log_path_resolves_def Let_def)

lemma startup_enters_loop:
  assumes "log_path_resolves pf" and "log_open_succeeds pf"
    and "RegisterClassW pf = Succeeded" and "CreateWindowExW pf = Succeeded"
  shows "\<exists>w. startup pf = Inr w"
proof -
  from GetExecutableDirectory_resolves [OF assms(1)] obtain projectDir w1
    where "GetExecutableDirectory pf initial_world = (Inr projectDir, w1)" by blast
  with assms(2-4) show ?thesis
    by (simp add: startup_def Let_def split: prod.splits)
qed

lemma main_after_prefix:
  assumes "startup pf = Inr w0" and "deliveries pf = ds @ rest"
    and "\<forall>rest. message_loop pf (ds @ rest) \<lparr>uMsg = 0, wParam = 0, lParam = None\<rparr> w0
                = message_loop pf rest msg' w'"
  shows "main pf = (case message_loop pf rest msg' w' of
                      None \<Rightarrow> None
                    | Some (Inl f) \<Rightarrow> Some (Inl f)
                    | Some (Inr (msg, w'')) \<Rightarrow> Some (cleanup pf msg w''))"
  using assms by (simp add: main_def)

text \<open>
  C7. Each fatal failure of the start-up (the directory of the log file cannot be
  determined, the log file does not open, the window class is not registered, the window
  is not created) makes \<open>main\<close> return 1 from the start-up, before the message loop. When
  the start-up succeeds and \<open>WM_QUIT\<close> arrives with exit code 0 after any messages,
  \<open>main\<close> returns 0.
\<close>

theorem startup_failures_and_exit_code:
  "(\<not> log_path_resolves pf \<longrightarrow>
      (\<exists>w. startup pf = Inl (1, w) \<and> main pf = Some (Inr (1, w)))) \<and>
   (log_path_resolves pf \<and> \<not> log_open_succeeds pf \<longrightarrow>
      (\<exists>w. startup pf = Inl (1, w) \<and> main pf = Some (Inr (1, w)))) \<and>
   (log_path_resolves pf \<and> log_open_succeeds pf \<and> RegisterClassW pf \<noteq> Succeeded \<longrightarrow>
      (\<exists>w. startup pf = Inl (1, w) \<and> main pf = Some (Inr (1, w)))) \<and>
   (log_path_resolves pf \<and> log_open_succeeds pf \<and> RegisterClassW pf = Succeeded
      \<and> CreateWindowExW pf \<noteq> Succeeded \<longrightarrow>
      (\<exists>w. startup pf = Inl (1, w) \<and> main pf = Some (Inr (1, w)))) \<and>
   (log_path_resolves pf \<and> log_open_succeeds pf \<and> RegisterClassW pf = Succeeded
      \<and> CreateWindowExW pf = Succeeded
      \<and> deliveries pf = ds @ QuitMsg 0 # rest \<and> (\<forall>d\<in>set ds. is_message d) \<longrightarrow>
      (\<exists>w. main pf = Some (Inr (0, w))))"
proof -
  have a: "\<not> log_path_resolves pf \<longrightarrow>
      (\<exists>w. startup pf = Inl (1, w) \<and> main pf = Some (Inr (1, w)))"
  proof
    assume "\<not> log_path_resolves pf"
    from GetExecutableDirectory_fails [OF this] obtain what w1
      where "GetExecutableDirectory pf initial_world = (Inl what, w1)" by blast
    then show "\<exists>w. startup pf = Inl (1, w) \<and> main pf = Some (Inr (1, w))"
      by (simp add: startup_def main_def)
  qed
  have later: "\<exists>w. startup pf = Inl (1, w) \<and> main pf = Some (Inr (1, w))"
    if res: "log_path_resolves pf"
      and bad: "\<not> log_open_succeeds pf \<or> RegisterClassW pf \<noteq> Succeeded
                \<or> CreateWindowExW pf \<noteq> Succeeded"
  proof -
    from GetExecutableDirectory_resolves [OF res] obtain projectDir w1
      where "GetExecutableDirectory pf initial_world = (Inr projectDir, w1)" by blast
    with bad show ?thesis
      by (cases "RegisterClassW pf"; cases "CreateWindowExW pf")
         (auto simp: startup_def main_def Let_def split: prod.splits)
  qed
  have b: "log_path_resolves pf \<and> \<not> log_open_succeeds pf \<longrightarrow>
      (\<exists>w. startup pf = Inl (1, w) \<and> main pf = Some (Inr (1, w)))"
    using later by blast
  have c: "log_path_resolves pf \<and> log_open_succeeds pf \<and> RegisterClassW pf \<noteq> Succeeded \<longrightarrow>
      (\<exists>w. startup pf = Inl (1, w) \<and> main pf = Some (Inr (1, w)))"
    using later by blast
  have d: "log_path_resolves pf \<and> log_open_succeeds pf \<and> RegisterClassW pf = Succeeded
      \<and> CreateWindowExW pf \<noteq> Succeeded \<longrightarrow>
      (\<exists>w. startup pf = Inl (1, w) \<and> main pf = Some (Inr (1, w)))"
    using later by blast
  have e: "log_path_resolves pf \<and> log_open_succeeds pf \<and> RegisterClassW pf = Succeeded
      \<and> CreateWindowExW pf = Succeeded
      \<and> deliveries pf = ds @ QuitMsg 0 # rest \<and> (\<forall>d\<in>set ds. is_message d) \<longrightarrow>
      (\<exists>w. main pf = Some (Inr (0, w)))"
  proof
    assume h: "log_path_resolves pf \<and> log_open_succeeds pf \<and> RegisterClassW pf = Succeeded
      \<and> CreateWindowExW pf = Succeeded
      \<and> deliveries pf = ds @ QuitMsg 0 # rest \<and> (\<forall>d\<in>set ds. is_message d)"
    then obtain w0 where st: "startup pf = Inr w0"
      using startup_enters_loop by blast
    from h have msgs: "\<forall>d\<in>set ds. is_message d" by simp
    from message_loop_prefix [OF msgs, of pf "\<lparr>uMsg = 0, wParam = 0, lParam = None\<rparr>" w0]
    obtain msg' w' where
      loop: "\<forall>rest. message_loop pf (ds @ rest) \<lparr>uMsg = 0, wParam = 0, lParam = None\<rparr> w0
                = message_loop pf rest msg' w'"
      by blast
    from h have del: "deliveries pf = ds @ (QuitMsg 0 # rest)" by simp
    have "main pf = Some (cleanup pf \<lparr>uMsg = WM_QUIT, wParam = 0, lParam = None\<rparr> w')"
      using main_after_prefix [OF st del loop] by simp
    moreover obtain w where
      "cleanup pf \<lparr>uMsg = WM_QUIT, wParam = 0, lParam = None\<rparr> w' = Inr (0, w)"
      using cleanup_result [of pf "\<lparr>uMsg = WM_QUIT, wParam = 0, lParam = None\<rparr>" w']
      by auto
    ultimately show "\<exists>w. main pf = Some (Inr (0, w))" by simp
  qed
  show ?thesis
    by (rule conjI [OF a conjI [OF b conjI [OF c conjI [OF d e]]]])
qed

theorem startup_failures_and_exit_code_witness:
  "(\<exists>w. main (example_platform\<lparr>GetModuleFileNameW := Inl 5,
                                 current_path := Inl ''no current directory''\<rparr>)
        = Some (Inr (1, w))) \<and>
   (\<exists>w. main (example_platform\<lparr>log_open_succeeds := False\<rparr>) = Some (Inr (1, w))) \<and>
   (\<exists>w. main (example_platform\<lparr>RegisterClassW := Failed 5\<rparr>) = Some (Inr (1, w))) \<and>
   (\<exists>w. main (example_platform\<lparr>CreateWindowExW := Failed 5\<rparr>) = Some (Inr (1, w))) \<and>
   (\<exists>w. main example_run = Some (Inr (0, w)))"
proof -
  have p1: "\<exists>w. main (example_platform\<lparr>GetModuleFileNameW := Inl 5,
                                 current_path := Inl ''no current directory''\<rparr>)
        = Some (Inr (1, w))"
    using startup_failures_and_exit_code
          [where pf = "example_platform\<lparr>GetModuleFileNameW := Inl 5,
                                         current_path := Inl ''no current directory''\<rparr>"]
    by (auto simp: log_path_resolves_def)
  have p2: "\<exists>w. main (example_platform\<lparr>log_open_succeeds := False\<rparr>) = Some (Inr (1, w))"
    using startup_failures_and_exit_code
          [where pf = "example_platform\<lparr>log_open_succeeds := False\<rparr>"]
    by (auto simp: log_path_resolves_def)
  have p3: "\<exists>w. main (example_platform\<lparr>RegisterClassW := Failed 5\<rparr>) = Some (Inr (1, w))"
    using startup_failures_and_exit_code
          [where pf = "example_platform\<lparr>RegisterClassW := Failed 5\<rparr>"]
    by (auto simp: log_path_resolves_def)
  have p4: "\<exists>w. main (example_platform\<lparr>CreateWindowExW := Failed 5\<rparr>) = Some (Inr (1, w))"
    using startup_failures_and_exit_code
          [where pf = "example_platform\<lparr>CreateWindowExW := Failed 5\<rparr>"]
    by (auto simp: log_path_resolves_def)
  have p5: "\<exists>w. main example_run = Some (Inr (0, w))"
    using startup_failures_and_exit_code
          [where pf = example_run and rest = "[]"
             and ds = "[Posted clipboard_update,
                        Sent (device_change DBT_DEVICEARRIVAL
                          (Some (example_header DBT_DEVTYP_DEVICEINTERFACE
                             (DeviceInterfaceBody GUID_DEVINTERFACE_USB_DEVICE example_name)))),
                        Posted clipboard_update]"]
    by (simp add: log_path_resolves_def example_run_def well_formed_def
        clipboard_update_def device_change_def example_header_def)
  from p1 p2 p3 p4 p5 show ?thesis by blast
qed

text \<open>
  C6. When the registration for device notifications fails and the clipboard listener is
  registered, the start-up does not return: it logs the error of the failed call and one
  warning for the device category, announces the loop and enters it. The loop then logs
  its line for every message delivered, among them every clipboard change, in the order
  of delivery, and goes on with what is delivered next.
\<close>

theorem device_registration_failure_not_fatal:
  assumes "GetExecutableDirectory pf initial_world = (Inr projectDir, wd)"
    and "log_open_succeeds pf"
    and "RegisterClassW pf = Succeeded" and "CreateWindowExW pf = Succeeded"
    and "AddClipboardFormatListener pf = Succeeded"
    and "RegisterDeviceNotification pf = Failed err"
    and "deliveries pf = ds @ rest" and "\<forall>d\<in>set ds. is_message d"
  shows "\<exists>w lines msg' w' lines'.
           startup pf = Inr w
         \<and> cout w = cout wd @
             [''Project Directory (Executable Location): '' @ projectDir,
              ''Log file path: '' @ path_append pf projectDir g_logFileName] @ lines
         \<and> list_all2 (timed pf)
             [''--- SecurityMonitor Started ---'',
              ''Project Directory: '' @ projectDir,
              ''Message-only window created successfully.'',
              ''Successfully registered clipboard listener.'',
              ''ERROR in RegisterDeviceNotification: '' @ FormatMessageA pf err
                 @ '' (Code: '' @ to_string (unat err) @ '')'',
              ''WARNING: Failed to register device notifications. USB/Device events may not be logged accurately.'',
              ''Starting message loop. Monitoring active...'']
             lines
         \<and> main pf = (case message_loop pf rest msg' w' of
                         None \<Rightarrow> None
                       | Some (Inl f) \<Rightarrow> Some (Inl f)
                       | Some (Inr (msg, w'')) \<Rightarrow> Some (cleanup pf msg w''))
         \<and> cout w' = cout w @ lines'
         \<and> list_all2 (timed pf) (List.map_filter (event_text pf) (dispatched ds)) lines'
         \<and> ((\<forall>k. disk_accepts pf k) \<longrightarrow> g_logFile w' = lines @ lines')
         \<and> (\<forall>m. uMsg m = WM_CLIPBOARDUPDATE \<longrightarrow>
               event_text pf m = Some ''Clipboard content changed (Copy/Paste detected).'')"
proof -
  from GetExecutableDirectory_initial [OF assms(1)]
  have fd: "g_logFile wd = []" and nfd: "\<not> failbit wd" by simp_all
  define w4 where
    "w4 = wd\<lparr>g_logFilePath := path_append pf projectDir g_logFileName,
             cout := cout wd @
               [''Project Directory (Executable Location): '' @ projectDir,
                ''Log file path: '' @ path_append pf projectDir g_logFileName],
             is_open := True\<rparr>"
  define w5 where "w5 = LogEvent pf ''--- SecurityMonitor Started ---'' w4"
  define w6 where "w6 = LogEvent pf (''Project Directory: '' @ projectDir) w5"
  define w7 where "w7 = LogEvent pf ''Message-only window created successfully.'' w6"
  define w8 where "w8 = LogEvent pf ''Successfully registered clipboard listener.'' w7"
  define w9 where "w9 = LogError pf ''RegisterDeviceNotification'' err w8"
  define w10 where "w10 = LogEvent pf
    ''WARNING: Failed to register device notifications. USB/Device events may not be logged accurately.''
    w9"
  define w where "w = LogEvent pf ''Starting message loop. Monitoring active...'' w10"
  have st: "startup pf = Inr w"
    using assms(1-6)
    by (simp add: startup_def Let_def RegisterDeviceNotifications_def
        w_def w10_def w9_def w8_def w7_def w6_def w5_def w4_def)
  define lines where
    "lines = [stamp_at pf (clock_reads w4) @ ''--- SecurityMonitor Started ---'',
              stamp_at pf (clock_reads w5) @ ''Project Directory: '' @ projectDir,
              stamp_at pf (clock_reads w6) @ ''Message-only window created successfully.'',
              stamp_at pf (clock_reads w7) @ ''Successfully registered clipboard listener.'',
              stamp_at pf (clock_reads w8) @ ''ERROR in RegisterDeviceNotification: ''
                 @ FormatMessageA pf err @ '' (Code: '' @ to_string (unat err) @ '')'',
              stamp_at pf (clock_reads w9) @
                ''WARNING: Failed to register device notifications. USB/Device events may not be logged accurately.'',
              stamp_at pf (clock_reads w10) @ ''Starting message loop. Monitoring active...'']"
  have c: "cout w = cout wd @
             [''Project Directory (Executable Location): '' @ projectDir,
              ''Log file path: '' @ path_append pf projectDir g_logFileName] @ lines"
    by (simp add: w_def w10_def w9_def w8_def w7_def w6_def w5_def LogEvent_cout
        LogError_cout lines_def) (simp add: w4_def)
  have t: "list_all2 (timed pf)
             [''--- SecurityMonitor Started ---'',
              ''Project Directory: '' @ projectDir,
              ''Message-only window created successfully.'',
              ''Successfully registered clipboard listener.'',
              ''ERROR in RegisterDeviceNotification: '' @ FormatMessageA pf err
                 @ '' (Code: '' @ to_string (unat err) @ '')'',
              ''WARNING: Failed to register device notifications. USB/Device events may not be logged accurately.'',
              ''Starting message loop. Monitoring active...'']
             lines"
    unfolding lines_def by simp
  have logfile: "healthy pf w \<and> g_logFile w = lines" if d: "\<forall>k. disk_accepts pf k"
  proof -
    have h4: "healthy pf w4" and g4: "g_logFile w4 = []"
      using d nfd fd by (simp_all add: healthy_def w4_def)
    have h5: "healthy pf w5" unfolding w5_def by (rule LogEvent_healthy [OF h4])
    have h6: "healthy pf w6" unfolding w6_def by (rule LogEvent_healthy [OF h5])
    have h7: "healthy pf w7" unfolding w7_def by (rule LogEvent_healthy [OF h6])
    have h8: "healthy pf w8" unfolding w8_def by (rule LogEvent_healthy [OF h7])
    have h9: "healthy pf w9" unfolding w9_def LogError_def Let_def
      by (rule LogEvent_healthy [OF h8])
    have h10: "healthy pf w10" unfolding w10_def by (rule LogEvent_healthy [OF h9])
    have h: "healthy pf w" unfolding w_def by (rule LogEvent_healthy [OF h10])
    have g5: "g_logFile w5 = [stamp_at pf (clock_reads w4) @ ''--- SecurityMonitor Started ---'']"
      using LogEvent_file_healthy [OF h4] g4 by (simp add: w5_def)
    have g6: "g_logFile w6 = g_logFile w5
                @ [stamp_at pf (clock_reads w5) @ ''Project Directory: '' @ projectDir]"
      unfolding w6_def by (rule LogEvent_file_healthy [OF h5])
    have g7: "g_logFile w7 = g_logFile w6
                @ [stamp_at pf (clock_reads w6) @ ''Message-only window created successfully.'']"
      unfolding w7_def by (rule LogEvent_file_healthy [OF h6])
    have g8: "g_logFile w8 = g_logFile w7
                @ [stamp_at pf (clock_reads w7) @ ''Successfully registered clipboard listener.'']"
      unfolding w8_def by (rule LogEvent_file_healthy [OF h7])
    have g9: "g_logFile w9 = g_logFile w8
                @ [stamp_at pf (clock_reads w8) @ ''ERROR in RegisterDeviceNotification: ''
                   @ FormatMessageA pf err @ '' (Code: '' @ to_string (unat err) @ '')'']"
      using LogEvent_file_healthy [OF h8] by (simp add: w9_def LogError_def)
    have g10: "g_logFile w10 = g_logFile w9
                @ [stamp_at pf (clock_reads w9) @
                   ''WARNING: Failed to register device notifications. USB/Device events may not be logged accurately.'']"
      unfolding w10_def by (rule LogEvent_file_healthy [OF h9])
    have g: "g_logFile w = g_logFile w10
                @ [stamp_at pf (clock_reads w10) @ ''Starting message loop. Monitoring active...'']"
      unfolding w_def by (rule LogEvent_file_healthy [OF h10])
    have "g_logFile w = lines"
      by (simp add: g g10 g9 g8 g7 g6 g5 lines_def)
    with h show ?thesis by simp
  qed
  from message_loop_prefix [OF assms(8), of pf "\<lparr>uMsg = 0, wParam = 0, lParam = None\<rparr>" w]
  obtain msg' w' lines' where
    loop: "\<forall>rest. message_loop pf (ds @ rest) \<lparr>uMsg = 0, wParam = 0, lParam = None\<rparr> w
              = message_loop pf rest msg' w'"
    and c': "cout w' = cout w @ lines'"
    and t': "list_all2 (timed pf) (List.map_filter (event_text pf) (dispatched ds)) lines'"
    and h': "healthy pf w \<longrightarrow> healthy pf w' \<and> g_logFile w' = g_logFile w @ lines'"
    by blast
  have m: "main pf = (case message_loop pf rest msg' w' of
                         None \<Rightarrow> None
                       | Some (Inl f) \<Rightarrow> Some (Inl f)
                       | Some (Inr (msg, w'')) \<Rightarrow> Some (cleanup pf msg w''))"
    by (rule main_after_prefix [OF st assms(7) loop])
  have f: "(\<forall>k. disk_accepts pf k) \<longrightarrow> g_logFile w' = lines @ lines'"
    using logfile h' by simp
  have e: "\<forall>m. uMsg m = WM_CLIPBOARDUPDATE \<longrightarrow>
               event_text pf m = Some ''Clipboard content changed (Copy/Paste detected).''"
    by (simp add: event_text_def)
  from st c t m c' t' f e show ?thesis by blast
qed

lemma example_run_fields [simp]:
  "GetExecutableDirectory example_run initial_world = (Inr ''C:/monitor'', initial_world)"
  "log_path_resolves example_run"
  "log_open_succeeds example_run"
  "RegisterClassW example_run = Succeeded"
  "CreateWindowExW example_run = Succeeded"
  "AddClipboardFormatListener example_run = Succeeded"
  "RegisterDeviceNotification example_run = Failed 5"
  "\<not> window_exists_at_exit example_run"
  "stamp_at example_run k = ''[2024-05-01 10:00:00] ''"
  "disk_accepts example_run k"
  "FormatMessageA example_run code = ''Access is denied.''"
  "path_append example_run dir name = dir @ ''/'' @ name"
  "decoded_path example_run example_name = ''USB''"
  "deliveries example_run =
     [Posted clipboard_update,
      Sent (device_change DBT_DEVICEARRIVAL
              (Some (example_header DBT_DEVTYP_DEVICEINTERFACE
                 (DeviceInterfaceBody GUID_DEVINTERFACE_USB_DEVICE example_name)))),
      Posted clipboard_update,
      QuitMsg 0]"
  by (simp_all add: example_run_def GetExecutableDirectory_def log_path_resolves_def
      stamp_at_def decoded_path_def)
     (simp_all add: example_platform_def example_name_def char_of_def bit_Suc_0_iff)

lemma timed_example_run [simp]:
  "timed example_run t line \<longleftrightarrow> line = ''[2024-05-01 10:00:00] '' @ t"
  by (simp add: timed_def)

lemma to_string_5 [simp]: "to_string 5 = ''5''"
  by (simp add: to_string.simps char_of_def bit_Suc_0_iff)

theorem device_registration_failure_not_fatal_witness:
  "\<exists>w w'. startup example_run = Inr w
     \<and> cout w =
         [''Project Directory (Executable Location): C:/monitor'',
          ''Log file path: C:/monitor/SecurityMonitorLog.txt'',
          ''[2024-05-01 10:00:00] --- SecurityMonitor Started ---'',
          ''[2024-05-01 10:00:00] Project Directory: C:/monitor'',
          ''[2024-05-01 10:00:00] Message-only window created successfully.'',
          ''[2024-05-01 10:00:00] Successfully registered clipboard listener.'',
          ''[2024-05-01 10:00:00] ERROR in RegisterDeviceNotification: Access is denied. (Code: 5)'',
          ''[2024-05-01 10:00:00] WARNING: Failed to register device notifications. USB/Device events may not be logged accurately.'',
          ''[2024-05-01 10:00:00] Starting message loop. Monitoring active...'']
     \<and> cout w' = cout w @
         [''[2024-05-01 10:00:00] Clipboard content changed (Copy/Paste detected).'',
          ''[2024-05-01 10:00:00] USB Device Plugged In: USB'',
          ''[2024-05-01 10:00:00] Clipboard content changed (Copy/Paste detected).'']
     \<and> g_logFile w' = drop 2 (cout w')
     \<and> main example_run
         = Some (cleanup example_run \<lparr>uMsg = WM_QUIT, wParam = 0, lParam = None\<rparr> w')"
proof -
  let ?ds = "[Posted clipboard_update,
              Sent (device_change DBT_DEVICEARRIVAL
                (Some (example_header DBT_DEVTYP_DEVICEINTERFACE
                   (DeviceInterfaceBody GUID_DEVINTERFACE_USB_DEVICE example_name)))),
              Posted clipboard_update]"
  have h1: "GetExecutableDirectory example_run initial_world
            = (Inr ''C:/monitor'', initial_world)" by simp
  have h2: "log_open_succeeds example_run" by simp
  have h3: "RegisterClassW example_run = Succeeded" by simp
  have h4: "CreateWindowExW example_run = Succeeded" by simp
  have h5: "AddClipboardFormatListener example_run = Succeeded" by simp
  have h6: "RegisterDeviceNotification example_run = Failed 5" by simp
  have h7: "deliveries example_run = ?ds @ [QuitMsg 0]" by simp
  have h8: "\<forall>d\<in>set ?ds. is_message d"
    by (simp add: well_formed_def clipboard_update_def device_change_def example_header_def)
  have texts: "List.map_filter (event_text example_run) (dispatched ?ds)
               = [''Clipboard content changed (Copy/Paste detected).'',
                  ''USB Device Plugged In: USB'',
                  ''Clipboard content changed (Copy/Paste detected).'']"
    by (simp add: List.map_filter_def event_text_def device_event_text_def
        clipboard_update_def device_change_def example_header_def)
  show ?thesis
    using device_registration_failure_not_fatal [OF h1 h2 h3 h4 h5 h6 h7 h8]
    unfolding texts
    by (elim exE conjE) (simp add: list_all2_Cons1 g_logFileName_def initial_world_def, auto)
qed

text \<open>
  C8. After a successful start-up, when the messages \<open>ds\<close> are delivered and then
  \<open>GetMessage\<close> ends the loop, \<open>main\<close> returns and the console holds, behind what the
  start-up wrote, the lines of the messages in the order of their delivery, one for each
  message that has an event, followed by the lines of the cleanup. On a healthy log the
  file receives the same lines in the same order.
\<close>

theorem log_order_preserved:
  assumes "log_path_resolves pf" and "log_open_succeeds pf"
    and "RegisterClassW pf = Succeeded" and "CreateWindowExW pf = Succeeded"
    and "deliveries pf = ds @ d # rest" and "\<forall>x\<in>set ds. is_message x"
    and "d = QuitMsg code \<or> d = GetMessageError"
  shows "\<exists>w0 exit w lines tail.
           startup pf = Inr w0
         \<and> main pf = Some (Inr (exit, w))
         \<and> cout w = cout w0 @ lines @ tail
         \<and> list_all2 (timed pf) (List.map_filter (event_text pf) (dispatched ds)) lines
         \<and> list_all2 (timed pf) (cleanup_texts pf) tail
         \<and> (healthy pf w0 \<longrightarrow> g_logFile w = g_logFile w0 @ lines @ tail)"
proof -
  from startup_enters_loop [OF assms(1-4)] obtain w0 where st: "startup pf = Inr w0"
    by blast
  from message_loop_prefix [OF assms(6), of pf "\<lparr>uMsg = 0, wParam = 0, lParam = None\<rparr>" w0]
  obtain msg' w' lines where
    loop: "\<forall>rest. message_loop pf (ds @ rest) \<lparr>uMsg = 0, wParam = 0, lParam = None\<rparr> w0
              = message_loop pf rest msg' w'"
    and c': "cout w' = cout w0 @ lines"
    and t': "list_all2 (timed pf) (List.map_filter (event_text pf) (dispatched ds)) lines"
    and h': "healthy pf w0 \<longrightarrow> healthy pf w' \<and> g_logFile w' = g_logFile w0 @ lines"
    by blast
  from assms(7) obtain msg'' where
    stop: "message_loop pf (d # rest) msg' w' = Some (Inr (msg'', w'))"
    by auto
  have m: "main pf = Some (cleanup pf msg'' w')"
    using main_after_prefix [OF st assms(5) loop] stop by simp
  from cleanup_result [of pf msg'' w'] obtain w tail where
    cl: "cleanup pf msg'' w' = Inr (sint (ucast (wParam msg'') :: 32 word), w)"
    and ct: "cout w = cout w' @ tail"
    and tt: "list_all2 (timed pf) (cleanup_texts pf) tail"
    and ht: "healthy pf w' \<longrightarrow> g_logFile w = g_logFile w' @ tail"
    by blast
  have r: "main pf = Some (Inr (sint (ucast (wParam msg'') :: 32 word), w))"
    using m cl by simp
  have c: "cout w = cout w0 @ lines @ tail"
    using c' ct by simp
  have h: "healthy pf w0 \<longrightarrow> g_logFile w = g_logFile w0 @ lines @ tail"
    using h' ht by simp
  from st r c t' tt h show ?thesis by blast
qed

theorem log_order_preserved_witness:
  "\<exists>w0 exit w. startup example_run = Inr w0
     \<and> main example_run = Some (Inr (exit, w))
     \<and> cout w = cout w0 @
         [''[2024-05-01 10:00:00] Clipboard content changed (Copy/Paste detected).'',
          ''[2024-05-01 10:00:00] USB Device Plugged In: USB'',
          ''[2024-05-01 10:00:00] Clipboard content changed (Copy/Paste detected).'',
          ''[2024-05-01 10:00:00] --- SecurityMonitor Stopping ---'']"
proof -
  let ?ds = "[Posted clipboard_update,
              Sent (device_change DBT_DEVICEARRIVAL
                (Some (example_header DBT_DEVTYP_DEVICEINTERFACE
                   (DeviceInterfaceBody GUID_DEVINTERFACE_USB_DEVICE example_name)))),
              Posted clipboard_update]"
  have h1: "log_path_resolves example_run" by simp
  have h2: "log_open_succeeds example_run" by simp
  have h3: "RegisterClassW example_run = Succeeded" by simp
  have h4: "CreateWindowExW example_run = Succeeded" by simp
  have h5: "deliveries example_run = ?ds @ QuitMsg 0 # []" by simp
  have h6: "\<forall>d\<in>set ?ds. is_message d"
    by (simp add: well_formed_def clipboard_update_def device_change_def example_header_def)
  have h7: "QuitMsg 0 = QuitMsg 0 \<or> QuitMsg 0 = GetMessageError" by simp
  have texts: "List.map_filter (event_text example_run) (dispatched ?ds)
               = [''Clipboard content changed (Copy/Paste detected).'',
                  ''USB Device Plugged In: USB'',
                  ''Clipboard content changed (Copy/Paste detected).'']"
    by (simp add: List.map_filter_def event_text_def device_event_text_def
        clipboard_update_def device_change_def example_header_def)
  show ?thesis
    using log_order_preserved [OF h1 h2 h3 h4 h5 h6 h7]
    unfolding texts
    by (elim exE conjE) (simp add: list_all2_Cons1 cleanup_texts_def)
qed

end
